theory Spec2Isabelle
  imports Complex_Main "HOL-Library.AList"
begin

section \<open>JavaScript values, objects and the object store\<close>

text \<open>
  The service (\<^verbatim>\<open>app.js\<close>) keeps two arrays of objects parsed from JSON files,
  \<^verbatim>\<open>loansData\<close> and \<^verbatim>\<open>staffsData\<close>, and answers requests from them. Objects are
  held by reference, so an object is a cell of a store and a value that denotes an object
  is the address of its cell. A cell is the list of the object's own properties in
  insertion order. Addresses are handed out by appending to the store, so the next free
  address is the length of the store, and every address the program holds is below it
  (\<open>wf_state\<close> below says so of the two arrays). A read at an address that was never
  handed out has no counterpart in the program; the properties that depend on the
  contents of the store are stated for the states where no such address occurs.

  A string is the sequence of its UTF-16 code units, a code unit being a natural number
  (below 65536 in the program; nothing in the model depends on the bound). A string of
  the program text is written \<open>lit ''...''\<close>, the code units of its characters.
  Numbers are carried as reals (the program never does arithmetic on a number of the
  data). Array-valued properties of a record are not modelled: no handler reads one.
\<close>

type_synonym jstring = "nat list"

definition lit :: "string \<Rightarrow> jstring" where
  "lit s = map of_char s"

type_synonym addr = nat

datatype val = Undefined | Null | Bool bool | Num real | Str jstring | Ref addr

type_synonym obj = "(jstring \<times> val) list"

type_synonym heap = "obj list"

text \<open>An \<^verbatim>\<open>Error\<close> object: its \<^verbatim>\<open>name\<close>, its \<^verbatim>\<open>message\<close> and the
  \<^verbatim>\<open>statusCode\<close> property the program attaches (absent on errors it did not make).\<close>

record js_error =
  name :: jstring
  message :: jstring
  statusCode :: "nat option"

definition new_Error :: "jstring \<Rightarrow> js_error" where
  "new_Error msg = \<lparr>name = lit ''Error'', message = msg, statusCode = None\<rparr>"

definition TypeError :: "jstring \<Rightarrow> js_error" where
  "TypeError msg = \<lparr>name = lit ''TypeError'', message = msg, statusCode = None\<rparr>"

text \<open>Truthiness, as \<^verbatim>\<open>!x\<close>, \<^verbatim>\<open>if (x)\<close> and \<^verbatim>\<open>x || y\<close> test it.\<close>

fun truthy :: "val \<Rightarrow> bool" where
  "truthy Undefined = False"
| "truthy Null = False"
| "truthy (Bool b) = b"
| "truthy (Num n) = (n \<noteq> 0)"
| "truthy (Str s) = (s \<noteq> [])"
| "truthy (Ref a) = True"

text \<open>\<^verbatim>\<open>a === b\<close>: on the values of the model (no NaN, objects by address) strict
  equality is equality.\<close>

definition strict_eq :: "val \<Rightarrow> val \<Rightarrow> bool" where
  "strict_eq a b = (a = b)"

text \<open>Decimal rendering of an index, for the keys of a string's characters.\<close>

definition digit :: "nat \<Rightarrow> nat" where
  "digit d = 48 + d"

fun show_nat :: "nat \<Rightarrow> jstring" where
  "show_nat n = (if n < 10 then [digit n] else show_nat (n div 10) @ [digit (n mod 10)])"

declare show_nat.simps [simp del]

definition quoted :: "jstring \<Rightarrow> jstring" where
  "quoted s = [of_char (CHR 0x27)] @ s @ [of_char (CHR 0x27)]"

text \<open>Reading property \<^verbatim>\<open>k\<close> of the object at an address: \<^verbatim>\<open>undefined\<close> when the
  object has no such property. (The keys the program reads, \<^verbatim>\<open>id\<close>, \<^verbatim>\<open>status\<close>,
  \<^verbatim>\<open>maturityDate\<close>, \<^verbatim>\<open>applicant\<close>, \<^verbatim>\<open>email\<close>, \<^verbatim>\<open>password\<close>, \<^verbatim>\<open>name\<close>,
  \<^verbatim>\<open>role\<close>, are not inherited from \<^verbatim>\<open>Object.prototype\<close>.)\<close>

definition field :: "obj \<Rightarrow> jstring \<Rightarrow> val" where
  "field ob k = (case map_of ob k of Some v \<Rightarrow> v | None \<Rightarrow> Undefined)"

definition get :: "heap \<Rightarrow> addr \<Rightarrow> jstring \<Rightarrow> val" where
  "get h a k = field (h ! a) k"

text \<open>The own enumerable properties that \<^verbatim>\<open>{ ...v }\<close> copies: those of an object, the
  indexed characters of a string, none of any other value.\<close>

definition spread :: "heap \<Rightarrow> val \<Rightarrow> obj" where
  "spread h v =
     (case v of
        Ref a \<Rightarrow> h ! a
      | Str s \<Rightarrow> zip (map show_nat [0..<length s]) (map (\<lambda>c. Str [c]) s)
      | _ \<Rightarrow> [])"

text \<open>\<^verbatim>\<open>v.k\<close> on any value: a TypeError on \<^verbatim>\<open>undefined\<close> and \<^verbatim>\<open>null\<close> (the
  message is V8's).\<close>

definition get_prop :: "heap \<Rightarrow> val \<Rightarrow> jstring \<Rightarrow> js_error + val" where
  "get_prop h v k =
     (case v of
        Undefined \<Rightarrow>
          Inl (TypeError (lit ''Cannot read properties of undefined (reading '' @ quoted k @ lit '')''))
      | Null \<Rightarrow>
          Inl (TypeError (lit ''Cannot read properties of null (reading '' @ quoted k @ lit '')''))
      | Ref a \<Rightarrow> Inr (get h a k)
      | Str s \<Rightarrow>
          Inr (field (spread h (Str s) @ [(lit ''length'', Num (real (length s)))]) k)
      | _ \<Rightarrow> Inr Undefined)"

definition alloc :: "heap \<Rightarrow> obj \<Rightarrow> heap \<times> addr" where
  "alloc h ob = (h @ [ob], length h)"

text \<open>\<^verbatim>\<open>o.k = v\<close> and \<^verbatim>\<open>delete o.k\<close> on the object at an address.\<close>

definition set_prop :: "heap \<Rightarrow> addr \<Rightarrow> jstring \<Rightarrow> val \<Rightarrow> heap" where
  "set_prop h a k v = h[a := AList.update k v (h ! a)]"

definition delete_prop :: "heap \<Rightarrow> addr \<Rightarrow> jstring \<Rightarrow> heap" where
  "delete_prop h a k = h[a := AList.delete k (h ! a)]"

section \<open>The response shaper\<close>

text \<open>
  The callback of \<^verbatim>\<open>loans.map\<close> in \<^verbatim>\<open>processLoansByRole\<close>, statement by statement:
  \<^verbatim>\<open>
  const processedLoan = { ...loan };
  if (userRole === 'staff') {
    processedLoan.applicant = { ...loan.applicant };
    delete processedLoan.applicant.totalLoan;
  }
  return processedLoan;
  \<close>
\<close>

definition processLoan :: "val \<Rightarrow> heap \<Rightarrow> addr \<Rightarrow> heap \<times> addr" where
  "processLoan userRole h loan =
     (let (h1, processedLoan) = alloc h (spread h (Ref loan)) in
      if strict_eq userRole (Str (lit ''staff'')) then
        (let (h2, copy) = alloc h1 (spread h1 (get h1 loan (lit ''applicant'')));
             h3 = set_prop h2 processedLoan (lit ''applicant'') (Ref copy);
             h4 = (case get h3 processedLoan (lit ''applicant'') of
                     Ref a \<Rightarrow> delete_prop h3 a (lit ''totalLoan'')
                   | _ \<Rightarrow> h3)
         in (h4, processedLoan))
      else (h1, processedLoan))"

text \<open>\<^verbatim>\<open>loans.map(...)\<close>: the callback runs on the elements from left to right; the
  result is a new array of the objects it returns.\<close>

fun processLoansByRole :: "heap \<Rightarrow> addr list \<Rightarrow> val \<Rightarrow> heap \<times> addr list" where
  "processLoansByRole h [] userRole = (h, [])"
| "processLoansByRole h (loan # loans) userRole =
     (let (h1, p) = processLoan userRole h loan;
          (h2, ps) = processLoansByRole h1 loans userRole
      in (h2, p # ps))"

section \<open>Requests, responses, the application state\<close>

text \<open>The identity a verified token decodes to (\<^verbatim>\<open>req.user\<close>): the claims
  \<^verbatim>\<open>id\<close>, \<^verbatim>\<open>name\<close>, \<^verbatim>\<open>email\<close>, \<^verbatim>\<open>role\<close> that login signs.\<close>

record identity =
  user_id :: val
  user_name :: val
  user_email :: val
  role :: val

text \<open>What the handlers read of a request: \<^verbatim>\<open>req.cookies.token\<close>,
  \<^verbatim>\<open>req.headers.authorization\<close>, \<^verbatim>\<open>req.query.status\<close>, the path parameters and
  \<^verbatim>\<open>req.body\<close>. \<^verbatim>\<open>None\<close> is \<^verbatim>\<open>undefined\<close>. A cookie and a query parameter are
  strings when present (a cookie with an empty value is the empty string); a repeated
  query parameter, which the query parser gives as an array, is not modelled. The body is
  the JSON object \<^verbatim>\<open>express.json()\<close> parsed, and \<^verbatim>\<open>undefined\<close> when it parsed
  nothing (a request without a JSON body): the router of this program is that of
  Express 5 (its catch-all route is the regular expression \<^verbatim>\<open>/(.*)/\<close>), which leaves
  \<^verbatim>\<open>req.body\<close> unset then.\<close>

record request =
  cookies_token :: "jstring option"
  headers_authorization :: "jstring option"
  query_status :: "jstring option"
  params_userEmail :: jstring
  params_loanId :: jstring
  body :: "obj option"

text \<open>The JSON bodies the program sends:
  \<^verbatim>\<open>{status: 'error', statusCode, message}\<close>,
  \<^verbatim>\<open>{status: 'success', results, data: {loans}}\<close>,
  \<^verbatim>\<open>{status: 'success', message}\<close> and
  \<^verbatim>\<open>{status: 'success', message: 'Login successful', data: {user, token}}\<close>.
  The loans of a body are the objects handed to \<^verbatim>\<open>res.json\<close>, read in the store the
  handler leaves.\<close>

datatype json_body =
    ErrorBody nat jstring
  | LoansBody nat "addr list"
  | MessageBody jstring
  | LoginBody identity jstring

datatype cookie_action = NoCookie | SetToken jstring | ClearToken

record response =
  status :: nat
  json :: json_body
  cookie :: cookie_action

record state =
  mem :: heap
  loansData :: "addr list"
  staffsData :: "addr list"

text \<open>The libraries and built-in functions the program calls and does not define:
  \<^verbatim>\<open>jwt.verify\<close> (returns the decoded payload or throws), \<^verbatim>\<open>jwt.sign\<close>, the time
  value of \<^verbatim>\<open>new Date(v)\<close> in milliseconds (\<^verbatim>\<open>None\<close> for an invalid date, whose
  time value is NaN) and \<^verbatim>\<open>String.prototype.toLowerCase\<close>, the lower-casing of the
  Unicode standard, which is not a map of single code units (a capital sigma becomes a
  final or a medial small sigma by its position in a word).\<close>

record env =
  jwt_verify :: "jstring \<Rightarrow> js_error + identity"
  jwt_sign :: "identity \<Rightarrow> jstring"
  Date_value :: "val \<Rightarrow> int option"
  String_toLowerCase :: "jstring \<Rightarrow> jstring"

text \<open>The errors of \<^verbatim>\<open>jsonwebtoken\<close>: \<^verbatim>\<open>verify\<close> throws a
  \<^verbatim>\<open>JsonWebTokenError\<close> for a malformed token or a bad signature, a
  \<^verbatim>\<open>TokenExpiredError\<close> (message \<^verbatim>\<open>jwt expired\<close>) for a token past its expiry and a
  \<^verbatim>\<open>NotBeforeError\<close> (message \<^verbatim>\<open>jwt not active\<close>) for one not yet valid; each
  class sets \<^verbatim>\<open>name\<close> to its own name and none has a \<^verbatim>\<open>statusCode\<close>.\<close>

datatype verify_failure = InvalidToken jstring | Expired | NotBefore

fun jwt_error :: "verify_failure \<Rightarrow> js_error" where
  "jwt_error (InvalidToken msg) =
     \<lparr>name = lit ''JsonWebTokenError'', message = msg, statusCode = None\<rparr>"
| "jwt_error Expired =
     \<lparr>name = lit ''TokenExpiredError'', message = lit ''jwt expired'', statusCode = None\<rparr>"
| "jwt_error NotBefore =
     \<lparr>name = lit ''NotBeforeError'', message = lit ''jwt not active'', statusCode = None\<rparr>"

section \<open>Middleware\<close>

text \<open>\<^verbatim>\<open>errorHandler\<close>: \<^verbatim>\<open>err.statusCode || 500\<close> and
  \<^verbatim>\<open>err.message || 'Internal Server Error'\<close>.\<close>

definition errorHandler :: "js_error \<Rightarrow> response" where
  "errorHandler err =
     (let statusCode = (case statusCode err of
                          Some n \<Rightarrow> if n \<noteq> 0 then n else 500
                        | None \<Rightarrow> 500);
          message = (if message err \<noteq> [] then message err else lit ''Internal Server Error'')
      in \<lparr>status = statusCode, json = ErrorBody statusCode message, cookie = NoCookie\<rparr>)"

text \<open>\<^verbatim>\<open>s.split(c)\<close> for a one-character separator: the pieces between the
  separators, empty pieces included.\<close>

fun split :: "nat \<Rightarrow> jstring \<Rightarrow> jstring list" where
  "split c [] = [[]]"
| "split c (x # xs) =
     (if x = c then [] # split c xs
      else (case split c xs of
              w # ws \<Rightarrow> (x # w) # ws
            | [] \<Rightarrow> [[x]]))"

text \<open>\<^verbatim>\<open>req.headers.authorization?.split(' ')[1]\<close>.\<close>

definition header_token :: "request \<Rightarrow> jstring option" where
  "header_token req =
     (case headers_authorization req of
        None \<Rightarrow> None
      | Some a \<Rightarrow>
          (let parts = split (of_char CHR '' '') a
           in if 1 < length parts then Some (parts ! 1) else None))"

text \<open>Truthiness of a string or \<^verbatim>\<open>undefined\<close>.\<close>

fun truthy_str :: "jstring option \<Rightarrow> bool" where
  "truthy_str None = False"
| "truthy_str (Some s) = (s \<noteq> [])"

text \<open>\<^verbatim>\<open>req.cookies.token || req.headers.authorization?.split(' ')[1]\<close>.\<close>

definition request_token :: "request \<Rightarrow> jstring option" where
  "request_token req =
     (if truthy_str (cookies_token req) then cookies_token req else header_token req)"

text \<open>
  \<^verbatim>\<open>authMiddleware\<close>. \<^verbatim>\<open>Inl error\<close> is \<^verbatim>\<open>next(error)\<close>; \<^verbatim>\<open>Inr decoded\<close> is
  \<^verbatim>\<open>req.user = decoded; next()\<close>. The no-token error is thrown inside the
  \<^verbatim>\<open>try\<close>, so it passes through the \<^verbatim>\<open>catch\<close> as an error of \<^verbatim>\<open>jwt.verify\<close>
  does.
\<close>

definition authMiddleware :: "env \<Rightarrow> request \<Rightarrow> js_error + identity" where
  "authMiddleware e req =
     (let token = request_token req;
          tried =
            (case token of
               None \<Rightarrow>
                 Inl ((new_Error (lit ''Unauthorized - No token provided''))\<lparr>statusCode := Some 401\<rparr>)
             | Some t \<Rightarrow>
                 if \<not> truthy_str token
                 then Inl ((new_Error (lit ''Unauthorized - No token provided''))\<lparr>statusCode := Some 401\<rparr>)
                 else jwt_verify e t)
      in case tried of
           Inr decoded \<Rightarrow> Inr decoded
         | Inl error \<Rightarrow>
             if name error = lit ''JsonWebTokenError''
             then Inl (error\<lparr>message := lit ''Unauthorized - Invalid token'', statusCode := Some 401\<rparr>)
             else Inl error)"

text \<open>\<^verbatim>\<open>authorizeRoles(...roles)\<close>.\<close>

definition authorizeRoles :: "val list \<Rightarrow> identity \<Rightarrow> js_error + unit" where
  "authorizeRoles roles user =
     (if role user \<notin> set roles
      then Inl ((new_Error (lit ''Forbidden - Insufficient permissions''))\<lparr>statusCode := Some 403\<rparr>)
      else Inr ())"

section \<open>Route handlers\<close>

text \<open>A handler returns \<^verbatim>\<open>Inl error\<close> when it ends in \<^verbatim>\<open>next(error)\<close> and
  \<^verbatim>\<open>Inr response\<close> when it responds, together with the state it leaves.\<close>

type_synonym outcome = "(js_error + response) \<times> state"

definition ok :: "json_body \<Rightarrow> response" where
  "ok b = \<lparr>status = 200, json = b, cookie = NoCookie\<rparr>"

text \<open>\<^verbatim>\<open>app.post('/api/login')\<close>. Destructuring \<^verbatim>\<open>req.body\<close> when it is
  \<^verbatim>\<open>undefined\<close> throws a TypeError inside the \<^verbatim>\<open>try\<close> (the message is V8's).\<close>

definition login :: "env \<Rightarrow> request \<Rightarrow> state \<Rightarrow> outcome" where
  "login e req st =
     (case body req of
        None \<Rightarrow>
          (Inl (TypeError (lit ''Cannot destructure property '' @ quoted (lit ''email'')
                           @ lit '' of '' @ quoted (lit ''req.body'')
                           @ lit '' as it is undefined.'')), st)
      | Some b \<Rightarrow>
          (let email = field b (lit ''email'');
               password = field b (lit ''password'')
           in if \<not> truthy email \<or> \<not> truthy password
              then (Inl ((new_Error (lit ''Email and password are required''))\<lparr>statusCode := Some 400\<rparr>), st)
              else
                (case find (\<lambda>s. strict_eq (get (mem st) s (lit ''email'')) email) (staffsData st) of
                   None \<Rightarrow>
                     (Inl ((new_Error (lit ''Invalid credentials''))\<lparr>statusCode := Some 401\<rparr>), st)
                 | Some staff \<Rightarrow>
                     (let isPasswordValid = strict_eq password (get (mem st) staff (lit ''password''))
                      in if \<not> isPasswordValid
                         then (Inl ((new_Error (lit ''Invalid credentials''))\<lparr>statusCode := Some 401\<rparr>), st)
                         else
                           (let user = \<lparr>user_id = get (mem st) staff (lit ''id''),
                                        user_name = get (mem st) staff (lit ''name''),
                                        user_email = get (mem st) staff (lit ''email''),
                                        role = get (mem st) staff (lit ''role'')\<rparr>;
                                token = jwt_sign e user
                            in (Inr \<lparr>status = 200, json = LoginBody user token,
                                     cookie = SetToken token\<rparr>, st))))))"

text \<open>\<^verbatim>\<open>app.post('/api/logout')\<close>.\<close>

definition logout :: "state \<Rightarrow> response \<times> state" where
  "logout st =
     (\<lparr>status = 200, json = MessageBody (lit ''Logout successful''), cookie = ClearToken\<rparr>, st)"

text \<open>The envelope of the three reading handlers: shape, then respond 200.\<close>

definition respond_loans :: "addr list \<Rightarrow> identity \<Rightarrow> state \<Rightarrow> outcome" where
  "respond_loans loans user st =
     (let (h, processedLoans) = processLoansByRole (mem st) loans (role user)
      in (Inr (ok (LoansBody (length processedLoans) processedLoans)), st\<lparr>mem := h\<rparr>))"

text \<open>\<^verbatim>\<open>app.get('/api/loans')\<close>.\<close>

definition get_loans :: "request \<Rightarrow> identity \<Rightarrow> state \<Rightarrow> outcome" where
  "get_loans req user st =
     (let status = query_status req;
          filteredLoans = loansData st;
          filteredLoans =
            (case status of
               None \<Rightarrow> filteredLoans
             | Some s \<Rightarrow>
                 if truthy_str status
                 then filter (\<lambda>loan. strict_eq (get (mem st) loan (lit ''status'')) (Str s)) filteredLoans
                 else filteredLoans)
      in respond_loans filteredLoans user st)"

text \<open>\<^verbatim>\<open>app.get('/api/expired-loans')\<close>; \<^verbatim>\<open>currentDate\<close> is the time value of
  \<^verbatim>\<open>new Date()\<close>. A comparison with an invalid date (NaN) is false.\<close>

definition is_expired :: "env \<Rightarrow> int \<Rightarrow> heap \<Rightarrow> addr \<Rightarrow> bool" where
  "is_expired e currentDate h loan =
     (case Date_value e (get h loan (lit ''maturityDate'')) of
        Some maturityDate \<Rightarrow> maturityDate < currentDate
      | None \<Rightarrow> False)"

definition get_expired_loans :: "env \<Rightarrow> int \<Rightarrow> identity \<Rightarrow> state \<Rightarrow> outcome" where
  "get_expired_loans e currentDate user st =
     (let expiredLoans = filter (is_expired e currentDate (mem st)) (loansData st)
      in respond_loans expiredLoans user st)"

text \<open>\<^verbatim>\<open>loan.applicant.email.toLowerCase()\<close>: a TypeError when \<^verbatim>\<open>loan.applicant\<close> is
  \<^verbatim>\<open>undefined\<close> or \<^verbatim>\<open>null\<close>, and when \<^verbatim>\<open>email\<close> is not a string.\<close>

definition email_toLowerCase :: "env \<Rightarrow> heap \<Rightarrow> addr \<Rightarrow> js_error + jstring" where
  "email_toLowerCase e h loan =
     (case get_prop h (get h loan (lit ''applicant'')) (lit ''email'') of
        Inl err \<Rightarrow> Inl err
      | Inr email \<Rightarrow>
          (case email of
             Str s \<Rightarrow> Inr (String_toLowerCase e s)
           | Undefined \<Rightarrow>
               Inl (TypeError (lit ''Cannot read properties of undefined (reading ''
                               @ quoted (lit ''toLowerCase'') @ lit '')''))
           | Null \<Rightarrow>
               Inl (TypeError (lit ''Cannot read properties of null (reading ''
                               @ quoted (lit ''toLowerCase'') @ lit '')''))
           | _ \<Rightarrow> Inl (TypeError (lit ''loan.applicant.email.toLowerCase is not a function''))))"

text \<open>\<^verbatim>\<open>xs.filter(f)\<close> when the callback may throw: the first throw ends the loop.\<close>

fun filter_throwing :: "('a \<Rightarrow> js_error + bool) \<Rightarrow> 'a list \<Rightarrow> js_error + 'a list" where
  "filter_throwing f [] = Inr []"
| "filter_throwing f (x # xs) =
     (case f x of
        Inl err \<Rightarrow> Inl err
      | Inr keep \<Rightarrow>
          (case filter_throwing f xs of
             Inl err \<Rightarrow> Inl err
           | Inr ys \<Rightarrow> Inr (if keep then x # ys else ys)))"

text \<open>\<^verbatim>\<open>app.get('/api/user-loans/:userEmail')\<close>.\<close>

definition get_user_loans :: "env \<Rightarrow> request \<Rightarrow> identity \<Rightarrow> state \<Rightarrow> outcome" where
  "get_user_loans e req user st =
     (let userEmail = params_userEmail req
      in case filter_throwing
                (\<lambda>loan. case email_toLowerCase e (mem st) loan of
                           Inl err \<Rightarrow> Inl err
                         | Inr lowered \<Rightarrow> Inr (lowered = String_toLowerCase e userEmail))
                (loansData st) of
           Inl err \<Rightarrow> (Inl err, st)
         | Inr userLoans \<Rightarrow> respond_loans userLoans user st)"

text \<open>\<^verbatim>\<open>app.delete('/api/loans/:loanId')\<close>, after both middlewares.\<close>

definition delete_loan :: "request \<Rightarrow> identity \<Rightarrow> state \<Rightarrow> outcome" where
  "delete_loan req user st =
     (let loanId = params_loanId req;
          loanExists = list_ex (\<lambda>loan. strict_eq (get (mem st) loan (lit ''id'')) (Str loanId))
                         (loansData st)
      in if \<not> loanExists
         then (Inl ((new_Error (lit ''Loan not found''))\<lparr>statusCode := Some 404\<rparr>), st)
         else (Inr (ok (MessageBody (lit ''Loan with ID '' @ loanId @ lit '' has been deleted''))), st))"

section \<open>Routes\<close>

text \<open>A route runs its middlewares in order; the first \<^verbatim>\<open>next(error)\<close> skips the rest
  and reaches \<^verbatim>\<open>errorHandler\<close>, which is registered after every route. The routes are
  those of a request that the rate limiter has let through; logging and CORS headers are
  left out.\<close>

definition finish :: "outcome \<Rightarrow> response \<times> state" where
  "finish out = (case out of
                   (Inl err, st) \<Rightarrow> (errorHandler err, st)
                 | (Inr res, st) \<Rightarrow> (res, st))"

definition protected :: "env \<Rightarrow> request \<Rightarrow> (identity \<Rightarrow> state \<Rightarrow> outcome) \<Rightarrow> state
                          \<Rightarrow> response \<times> state" where
  "protected e req handler st =
     (case authMiddleware e req of
        Inl err \<Rightarrow> (errorHandler err, st)
      | Inr user \<Rightarrow> finish (handler user st))"

definition POST_login :: "env \<Rightarrow> request \<Rightarrow> state \<Rightarrow> response \<times> state" where
  "POST_login e req st = finish (login e req st)"

definition GET_loans :: "env \<Rightarrow> request \<Rightarrow> state \<Rightarrow> response \<times> state" where
  "GET_loans e req st = protected e req (get_loans req) st"

definition GET_expired_loans :: "env \<Rightarrow> int \<Rightarrow> request \<Rightarrow> state \<Rightarrow> response \<times> state" where
  "GET_expired_loans e currentDate req st = protected e req (get_expired_loans e currentDate) st"

definition GET_user_loans :: "env \<Rightarrow> request \<Rightarrow> state \<Rightarrow> response \<times> state" where
  "GET_user_loans e req st = protected e req (get_user_loans e req) st"

definition DELETE_loan :: "env \<Rightarrow> request \<Rightarrow> state \<Rightarrow> response \<times> state" where
  "DELETE_loan e req st =
     protected e req
       (\<lambda>user st. case authorizeRoles [Str (lit ''superAdmin'')] user of
                    Inl err \<Rightarrow> (Inl err, st)
                  | Inr _ \<Rightarrow> delete_loan req user st)
       st"

text \<open>Every address held by the two arrays is the address of an allocated object.\<close>

definition wf_state :: "state \<Rightarrow> bool" where
  "wf_state st =
     ((\<forall>a \<in> set (loansData st). a < length (mem st)) \<and>
      (\<forall>a \<in> set (staffsData st). a < length (mem st)))"

section \<open>Notions the properties are stated with\<close>

text \<open>The response \<^verbatim>\<open>errorHandler\<close> sends for a status code and a message.\<close>

definition error_response :: "nat \<Rightarrow> jstring \<Rightarrow> response" where
  "error_response code msg = \<lparr>status = code, json = ErrorBody code msg, cookie = NoCookie\<rparr>"

text \<open>The object at an address has an own property \<^verbatim>\<open>k\<close>.\<close>

definition has_key :: "heap \<Rightarrow> addr \<Rightarrow> jstring \<Rightarrow> bool" where
  "has_key h a k = (k \<in> fst ` set (h ! a))"

text \<open>The objects of a sequence of loan records: the records and the applicant
  sub-object of each.\<close>

definition record_objects :: "heap \<Rightarrow> addr list \<Rightarrow> addr set" where
  "record_objects h loans =
     set loans \<union> set (concat (map (\<lambda>l. case get h l (lit ''applicant'') of
                                              Ref a \<Rightarrow> [a] | _ \<Rightarrow> []) loans))"

text \<open>What \<^verbatim>\<open>authMiddleware\<close> makes of \<^verbatim>\<open>jwt.verify(token)\<close>: the decoded payload,
  or the error thrown as its \<^verbatim>\<open>catch\<close> block passes it on.\<close>

definition verified :: "env \<Rightarrow> jstring \<Rightarrow> js_error + identity" where
  "verified e token =
     (case jwt_verify e token of
        Inr decoded \<Rightarrow> Inr decoded
      | Inl error \<Rightarrow>
          Inl (if name error = lit ''JsonWebTokenError''
               then error\<lparr>message := lit ''Unauthorized - Invalid token'', statusCode := Some 401\<rparr>
               else error))"

text \<open>Letter case. \<open>simple_lower\<close> is the lower-case counterpart of a single code unit
  in Basic Latin, Latin-1 and the Greek alphabet (the capitals A to Z, U+00C0 to U+00DE
  without the multiplication sign U+00D7, and alpha U+0391 to omega U+03A9 move up by
  32). Two code units are the same letter when they are equal or one is the lower-case
  counterpart of the other; two strings differ only in letter case when they are the
  same letters, position by position.\<close>

definition simple_lower :: "nat \<Rightarrow> nat" where
  "simple_lower c =
     (if (65 \<le> c \<and> c \<le> 90) \<or> (192 \<le> c \<and> c \<le> 222 \<and> c \<noteq> 215)
         \<or> (913 \<le> c \<and> c \<le> 937 \<and> c \<noteq> 930)
      then c + 32 else c)"

definition same_letter :: "nat \<Rightarrow> nat \<Rightarrow> bool" where
  "same_letter a b = (a = b \<or> simple_lower a = b \<or> a = simple_lower b)"

definition differ_only_in_case :: "jstring \<Rightarrow> jstring \<Rightarrow> bool" where
  "differ_only_in_case p q = list_all2 same_letter p q"

text \<open>A string of code units below 256 (Basic Latin and Latin-1), and what
  \<^verbatim>\<open>toLowerCase\<close> does on such strings: it lower-cases each code unit by itself.\<close>

definition below_256 :: "jstring \<Rightarrow> bool" where
  "below_256 s = list_all (\<lambda>c. c < 256) s"

definition lowers_latin1 :: "env \<Rightarrow> bool" where
  "lowers_latin1 e = (\<forall>s. below_256 s \<longrightarrow> String_toLowerCase e s = map simple_lower s)"

text \<open>
  \<^verbatim>\<open>String.prototype.toLowerCase\<close> on the strings of Basic Latin, Latin-1 and the Greek
  letters alpha to omega. Each code unit is lower-cased by itself, but for the capital
  sigma U+03A3: it becomes the final small sigma U+03C2 where it ends a word, that is
  where a cased letter comes before it and none after it, case-ignorable characters
  skipped on both sides, and the small sigma U+03C3 elsewhere. \<open>cased\<close> and
  \<open>case_ignorable\<close> are these two classes of the Unicode standard within the three
  blocks.
\<close>

definition cased :: "nat \<Rightarrow> bool" where
  "cased c =
     ((65 \<le> c \<and> c \<le> 90) \<or> (97 \<le> c \<and> c \<le> 122) \<or> c = 170 \<or> c = 181 \<or> c = 186
      \<or> (192 \<le> c \<and> c \<le> 214) \<or> (216 \<le> c \<and> c \<le> 246) \<or> (248 \<le> c \<and> c \<le> 255)
      \<or> (913 \<le> c \<and> c \<le> 929) \<or> (931 \<le> c \<and> c \<le> 937) \<or> (945 \<le> c \<and> c \<le> 969))"

definition case_ignorable :: "nat \<Rightarrow> bool" where
  "case_ignorable c = (c \<in> set [39, 46, 58, 94, 96, 168, 173, 175, 180, 183, 184])"

fun next_is_cased :: "jstring \<Rightarrow> bool" where
  "next_is_cased [] = False"
| "next_is_cased (c # cs) = (if case_ignorable c then next_is_cased cs else cased c)"

text \<open>\<open>seen\<close> is the part of the string already passed, last code unit first.\<close>

fun lower_units :: "jstring \<Rightarrow> jstring \<Rightarrow> jstring" where
  "lower_units seen [] = []"
| "lower_units seen (c # cs) =
     (if c = 931
      then (if next_is_cased seen \<and> \<not> next_is_cased cs then 962 else 963)
      else simple_lower c) # lower_units (c # seen) cs"

definition toLowerCase_fragment :: "jstring \<Rightarrow> jstring" where
  "toLowerCase_fragment s = lower_units [] s"

text \<open>The loans whose maturity date lies strictly before an instant, and the loans
  whose applicant's email has the lower-casing of a given string.\<close>

definition matures_before :: "env \<Rightarrow> heap \<Rightarrow> int \<Rightarrow> addr \<Rightarrow> bool" where
  "matures_before e h t loan =
     (\<exists>m. Date_value e (get h loan (lit ''maturityDate'')) = Some m \<and> m < t)"

definition applicant_email :: "heap \<Rightarrow> addr \<Rightarrow> jstring option" where
  "applicant_email h loan =
     (case get h loan (lit ''applicant'') of
        Ref a \<Rightarrow> (case get h a (lit ''email'') of Str s \<Rightarrow> Some s | _ \<Rightarrow> None)
      | _ \<Rightarrow> None)"

definition email_matches :: "env \<Rightarrow> heap \<Rightarrow> jstring \<Rightarrow> addr \<Rightarrow> bool" where
  "email_matches e h userEmail loan =
     (case applicant_email h loan of
        Some s \<Rightarrow> String_toLowerCase e s = String_toLowerCase e userEmail
      | None \<Rightarrow> False)"

text \<open>Every loan record has an applicant object with a string \<^verbatim>\<open>email\<close>, as the data
  model of the service has it.\<close>

definition applicants_have_email :: "state \<Rightarrow> bool" where
  "applicants_have_email st =
     (\<forall>loan \<in> set (loansData st). applicant_email (mem st) loan \<noteq> None)"

section \<open>A small data set\<close>

definition demo_heap :: heap where
  "demo_heap =
     [ [(lit ''id'', Str (lit ''900199'')), (lit ''amount'', Num 6000),
        (lit ''maturityDate'', Str (lit ''2024-03-05'')),
        (lit ''status'', Str (lit ''active'')), (lit ''applicant'', Ref 1)],
       [(lit ''name'', Str (lit ''Ann'')), (lit ''email'', Str (lit ''Ann@Example.com'')),
        (lit ''totalLoan'', Num 13000)],
       [(lit ''id'', Str (lit ''900200'')), (lit ''amount'', Num 150),
        (lit ''maturityDate'', Str (lit ''2031-01-01'')),
        (lit ''status'', Str (lit ''pending'')), (lit ''applicant'', Ref 3)],
       [(lit ''name'', Str (lit ''Bo'')), (lit ''email'', Str (lit ''bo@example.com'')), (lit ''totalLoan'', Num 150)],
       [(lit ''id'', Num 1), (lit ''name'', Str (lit ''Edwin'')),
        (lit ''email'', Str (lit ''edwin@example.com'')),
        (lit ''role'', Str (lit ''superAdmin'')), (lit ''password'', Str (lit ''12345Pass''))],
       [(lit ''id'', Num 2), (lit ''name'', Str (lit ''Jane'')),
        (lit ''email'', Str (lit ''jane@example.com'')),
        (lit ''role'', Str (lit ''staff'')), (lit ''password'', Str (lit ''abc''))] ]"

definition demo_state :: state where
  "demo_state = \<lparr>mem = demo_heap, loansData = [0, 2], staffsData = [4, 5]\<rparr>"

definition demo_user :: "jstring \<Rightarrow> identity" where
  "demo_user r = \<lparr>user_id = Num 1, user_name = Str (lit ''Edwin''),
                  user_email = Str (lit ''edwin@example.com''), role = Str r\<rparr>"

text \<open>A token service that accepts three tokens, one for each role, reports the token
  \<^verbatim>\<open>old\<close> as expired and every other token as malformed; the dates of the data set
  with their time values (midnight UTC).\<close>

definition demo_env :: env where
  "demo_env =
     \<lparr>jwt_verify = (\<lambda>t. if t = lit ''staff'' \<or> t = lit ''admin'' \<or> t = lit ''superAdmin''
                         then Inr (demo_user t)
                         else if t = lit ''old'' then Inl (jwt_error Expired)
                         else Inl (jwt_error (InvalidToken (lit ''jwt malformed'')))),
      jwt_sign = (\<lambda>u. lit ''signed''),
      Date_value = (\<lambda>v. if v = Str (lit ''2024-03-05'') then Some 1709596800000
                         else if v = Str (lit ''2031-01-01'') then Some 1924992000000
                         else None),
      String_toLowerCase = toLowerCase_fragment\<rparr>"

definition demo_request :: request where
  "demo_request =
     \<lparr>cookies_token = None, headers_authorization = None, query_status = None,
      params_userEmail = [], params_loanId = [], body = None\<rparr>"

text \<open>A loan whose applicant's email ends in the Greek letters small alpha, small
  sigma.\<close>

definition sigma_heap :: heap where
  "sigma_heap =
     [ [(lit ''id'', Str (lit ''900300'')), (lit ''applicant'', Ref 1)],
       [(lit ''email'', Str (lit ''a@b.'' @ [945, 963])), (lit ''totalLoan'', Num 10)] ]"

definition sigma_state :: state where
  "sigma_state = \<lparr>mem = sigma_heap, loansData = [0], staffsData = []\<rparr>"

section \<open>Strings of the program text\<close>

lemma lit_eq_iff [simp]: "lit a = lit b \<longleftrightarrow> a = b"
proof -
  have "inj (of_char :: char \<Rightarrow> nat)" by (rule injI) simp
  then show ?thesis by (simp add: lit_def inj_map_eq_map)
qed

lemma lit_append: "lit (a @ b) = lit a @ lit b"
  by (simp add: lit_def)

lemma lit_empty_iff [simp]: "lit s = [] \<longleftrightarrow> s = []" "[] = lit s \<longleftrightarrow> s = []"
  by (auto simp: lit_def)

lemma below_256_lit: "below_256 (lit s)"
proof -
  have "(of_char c :: nat) < 256" for c
    by (cases c) (simp add: of_char_def)
  then show ?thesis by (simp add: below_256_def lit_def list_all_iff)
qed


section \<open>Properties of the response shaper\<close>

lemma processLoan_other:
  "userRole \<noteq> Str (lit ''staff'') \<Longrightarrow> processLoan userRole h loan = (h @ [h ! loan], length h)"
  by (simp add: processLoan_def alloc_def spread_def strict_eq_def)

lemma field_update_same: "field (AList.update k v ob) k = v"
  by (simp add: field_def update_conv')

lemma field_update_other: "k' \<noteq> k \<Longrightarrow> field (AList.update k v ob) k' = field ob k'"
  by (simp add: field_def update_conv')

lemma processLoan_staff:
  "processLoan (Str (lit ''staff'')) h loan =
     (h @ [AList.update (lit ''applicant'') (Ref (Suc (length h))) (h ! loan),
           AList.delete (lit ''totalLoan'') (spread (h @ [h ! loan]) (get (h @ [h ! loan]) loan (lit ''applicant'')))],
      length h)"
proof -
  let ?h1 = "h @ [h ! loan]"
  let ?copy = "spread ?h1 (get ?h1 loan (lit ''applicant''))"
  let ?h2 = "?h1 @ [?copy]"
  let ?h3 = "set_prop ?h2 (length h) (lit ''applicant'') (Ref (Suc (length h)))"
  have h3: "?h3 = h @ [AList.update (lit ''applicant'') (Ref (Suc (length h))) (h ! loan), ?copy]"
    by (simp add: set_prop_def nth_append list_update_append)
  have rd: "get ?h3 (length h) (lit ''applicant'') = Ref (Suc (length h))"
    unfolding h3 by (simp add: get_def nth_append field_update_same)
  have h4: "delete_prop ?h3 (Suc (length h)) (lit ''totalLoan'') =
            h @ [AList.update (lit ''applicant'') (Ref (Suc (length h))) (h ! loan),
                 AList.delete (lit ''totalLoan'') ?copy]"
    unfolding h3 by (simp add: delete_prop_def nth_append list_update_append)
  have sp: "spread h (Ref loan) = h ! loan" by (simp add: spread_def)
  show ?thesis
    unfolding processLoan_def alloc_def sp
    using rd h4 by (simp add: strict_eq_def Let_def)
qed

lemma processLoan_extends:
  "processLoan r h loan = (h1, p) \<Longrightarrow> p = length h \<and> (\<exists>ext. h1 = h @ ext \<and> ext \<noteq> [])"
  by (cases "r = Str (lit ''staff'')") (auto simp: processLoan_staff processLoan_other)

lemma processLoansByRole_extends:
  "processLoansByRole h loans r = (h', ps) \<Longrightarrow> \<exists>ext. h' = h @ ext"
proof (induction loans arbitrary: h h' ps)
  case Nil
  then show ?case by simp
next
  case (Cons loan loans)
  obtain h1 p where s1: "processLoan r h loan = (h1, p)" by (cases "processLoan r h loan")
  obtain h2 qs where s2: "processLoansByRole h1 loans r = (h2, qs)"
    by (cases "processLoansByRole h1 loans r")
  from Cons.prems s1 s2 have eq: "h' = h2" by simp
  from processLoan_extends [OF s1] obtain e1 where "h1 = h @ e1" by blast
  moreover from Cons.IH [OF s2] obtain e2 where "h2 = h1 @ e2" by blast
  ultimately show ?case using eq by simp
qed

lemma processLoansByRole_length:
  "processLoansByRole h loans r = (h', ps) \<Longrightarrow> length ps = length loans"
proof (induction loans arbitrary: h h' ps)
  case Nil
  then show ?case by simp
next
  case (Cons loan loans)
  obtain h1 p where s1: "processLoan r h loan = (h1, p)" by (cases "processLoan r h loan")
  obtain h2 qs where s2: "processLoansByRole h1 loans r = (h2, qs)"
    by (cases "processLoansByRole h1 loans r")
  from Cons.prems s1 s2 have "ps = p # qs" by simp
  with Cons.IH [OF s2] show ?case by simp
qed

lemma processLoansByRole_fresh:
  "processLoansByRole h loans r = (h', ps) \<Longrightarrow> \<forall>p \<in> set ps. length h \<le> p \<and> p < length h'"
proof (induction loans arbitrary: h h' ps)
  case Nil
  then show ?case by simp
next
  case (Cons loan loans)
  obtain h1 p where s1: "processLoan r h loan = (h1, p)" by (cases "processLoan r h loan")
  obtain h2 qs where s2: "processLoansByRole h1 loans r = (h2, qs)"
    by (cases "processLoansByRole h1 loans r")
  from Cons.prems s1 s2 have eq: "h' = h2" "ps = p # qs" by simp_all
  from processLoan_extends [OF s1] obtain e1 where e1: "p = length h" "h1 = h @ e1" "e1 \<noteq> []"
    by blast
  from processLoansByRole_extends [OF s2] obtain e2 where e2: "h2 = h1 @ e2" by blast
  from e1 have "length h < length h1" by (cases e1) simp_all
  with Cons.IH [OF s2] e1 e2 eq show ?case by auto
qed

lemma processLoansByRole_other:
  assumes "r \<noteq> Str (lit ''staff'')" and "\<forall>l \<in> set loans. l < length h"
  shows "processLoansByRole h loans r =
           (h @ map (\<lambda>l. h ! l) loans, [length h ..< length h + length loans])"
  using assms(2)
proof (induction loans arbitrary: h)
  case Nil
  then show ?case by simp
next
  case (Cons loan loans)
  let ?h1 = "h @ [h ! loan]"
  have s1: "processLoan r h loan = (?h1, length h)"
    using assms(1) by (rule processLoan_other)
  have bound: "\<forall>l \<in> set loans. l < length ?h1" using Cons.prems by auto
  have same: "map (\<lambda>l. ?h1 ! l) loans = map (\<lambda>l. h ! l) loans"
    using Cons.prems by (auto simp: nth_append)
  have ih: "processLoansByRole ?h1 loans r =
          (?h1 @ map (\<lambda>l. ?h1 ! l) loans, [length ?h1 ..< length ?h1 + length loans])"
    using bound by (rule Cons.IH)
  have step: "processLoansByRole h (loan # loans) r =
          (?h1 @ map (\<lambda>l. h ! l) loans, length h # [length ?h1 ..< length ?h1 + length loans])"
    using s1 ih same by simp
  have "[length h ..< length h + length (loan # loans)] =
          length h # [length ?h1 ..< length ?h1 + length loans]"
    by (subst upt_rec) simp
  with step show ?case by simp
qed

lemma processLoansByRole_staff:
  "processLoansByRole h loans (Str (lit ''staff'')) = (h', ps) \<Longrightarrow>
   \<forall>p \<in> set ps. \<exists>a. get h' p (lit ''applicant'') = Ref a \<and> a < length h' \<and> \<not> has_key h' a (lit ''totalLoan'')"
proof (induction loans arbitrary: h h' ps)
  case Nil
  then show ?case by simp
next
  case (Cons loan loans)
  let ?c1 = "AList.update (lit ''applicant'') (Ref (Suc (length h))) (h ! loan)"
  let ?c2 = "AList.delete (lit ''totalLoan'') (spread (h @ [h ! loan]) (get (h @ [h ! loan]) loan (lit ''applicant'')))"
  let ?h1 = "h @ [?c1, ?c2]"
  have s1: "processLoan (Str (lit ''staff'')) h loan = (?h1, length h)" by (rule processLoan_staff)
  obtain h2 qs where s2: "processLoansByRole ?h1 loans (Str (lit ''staff'')) = (h2, qs)"
    by (cases "processLoansByRole ?h1 loans (Str (lit ''staff''))")
  from Cons.prems s1 s2 have eq: "h' = h2" "ps = length h # qs" by simp_all
  from processLoansByRole_extends [OF s2] obtain e2 where e2: "h2 = ?h1 @ e2" by blast
  have c1: "h2 ! length h = ?c1" unfolding e2 by (simp add: nth_append)
  have c2: "h2 ! Suc (length h) = ?c2" unfolding e2 by (simp add: nth_append)
  have "get h2 (length h) (lit ''applicant'') = Ref (Suc (length h))"
    by (simp add: get_def c1 field_update_same)
  moreover have "Suc (length h) < length h2" unfolding e2 by simp
  moreover have "\<not> has_key h2 (Suc (length h)) (lit ''totalLoan'')"
    by (simp add: has_key_def c2 delete_notin_dom)
  ultimately have hd: "\<exists>a. get h2 (length h) (lit ''applicant'') = Ref a \<and> a < length h2
                           \<and> \<not> has_key h2 a (lit ''totalLoan'')" by blast
  from Cons.IH [OF s2] hd eq show ?case by simp
qed

lemma processLoansByRole_fields:
  assumes "\<forall>l \<in> set loans. l < length h" and "processLoansByRole h loans r = (h', ps)"
    and "k \<noteq> lit ''applicant''"
  shows "map (\<lambda>p. get h' p k) ps = map (\<lambda>l. get h l k) loans"
  using assms(1,2)
proof (induction loans arbitrary: h h' ps)
  case Nil
  then show ?case by simp
next
  case (Cons loan loans)
  obtain h1 p where s1: "processLoan r h loan = (h1, p)" by (cases "processLoan r h loan")
  obtain h2 qs where s2: "processLoansByRole h1 loans r = (h2, qs)"
    by (cases "processLoansByRole h1 loans r")
  from Cons.prems(2) s1 s2 have eq: "h' = h2" "ps = p # qs" by simp_all
  from processLoan_extends [OF s1] obtain e1 where e1: "p = length h" "h1 = h @ e1" "e1 \<noteq> []"
    by blast
  from processLoansByRole_extends [OF s2] obtain e2 where e2: "h2 = h1 @ e2" by blast
  have first: "field (h1 ! length h) k = field (h ! loan) k"
  proof (cases "r = Str (lit ''staff'')")
    case True
    with s1 show ?thesis using assms(3) by (auto simp: processLoan_staff nth_append field_update_other)
  next
    case False
    with s1 show ?thesis by (auto simp: processLoan_other nth_append)
  qed
  have lt: "length h < length h1" using e1 by (cases e1) simp_all
  have hd: "get h2 p k = get h loan k"
    using first lt by (simp add: get_def e1(1) e2 nth_append)
  have bound: "\<forall>l \<in> set loans. l < length h1" using Cons.prems(1) lt by auto
  have old: "map (\<lambda>l. get h1 l k) loans = map (\<lambda>l. get h l k) loans"
    using Cons.prems(1) by (auto simp: get_def e1(2) nth_append)
  from Cons.IH [OF bound s2] old hd eq show ?case by simp
qed


section \<open>Properties of the middleware\<close>

lemma errorHandler_status:
  "0 < code \<Longrightarrow> msg \<noteq> [] \<Longrightarrow>
   errorHandler ((new_Error msg)\<lparr>statusCode := Some code\<rparr>) = error_response code msg"
  by (simp add: errorHandler_def new_Error_def error_response_def)

lemma split_no_separator: "c \<notin> set xs \<Longrightarrow> split c xs = [xs]"
  by (induction xs) auto

lemma header_token_Bearer:
  "of_char CHR '' '' \<notin> set t \<Longrightarrow>
   header_token (req\<lparr>headers_authorization := Some (lit ''Bearer '' @ t)\<rparr>) = Some t"
  by (simp add: header_token_def lit_def split_no_separator)

lemma no_token_unauthorized:
  assumes "\<not> truthy_str (request_token req)"
  shows "authMiddleware e req =
           Inl ((new_Error (lit ''Unauthorized - No token provided''))\<lparr>statusCode := Some 401\<rparr>)"
proof (cases "request_token req")
  case None
  then show ?thesis by (simp add: authMiddleware_def new_Error_def)
next
  case (Some t)
  with assms have "t = []" by simp
  with Some show ?thesis by (simp add: authMiddleware_def new_Error_def)
qed

lemma verify_failure_passed_on:
  assumes "request_token req = Some t" and "t \<noteq> []" and "jwt_verify e t = Inl err"
  shows "authMiddleware e req =
           Inl (if name err = lit ''JsonWebTokenError''
                then err\<lparr>message := lit ''Unauthorized - Invalid token'', statusCode := Some 401\<rparr>
                else err)"
  using assms by (simp add: authMiddleware_def)

lemma authMiddleware_verified:
  "request_token req = Some t \<Longrightarrow> t \<noteq> [] \<Longrightarrow> authMiddleware e req = verified e t"
  by (simp add: authMiddleware_def verified_def split: sum.splits)

lemma authMiddleware_query [simp]:
  "authMiddleware e (req\<lparr>query_status := q\<rparr>) = authMiddleware e req"
  by (simp add: authMiddleware_def request_token_def header_token_def)

lemma authMiddleware_params [simp]:
  "authMiddleware e (req\<lparr>params_userEmail := p\<rparr>) = authMiddleware e req"
  by (simp add: authMiddleware_def request_token_def header_token_def)

lemma protected_authenticated:
  "authMiddleware e req = Inr user \<Longrightarrow> protected e req handler st = finish (handler user st)"
  by (simp add: protected_def)

lemma invalid_token_401:
  assumes "request_token req = Some t" and "t \<noteq> []"
    and "jwt_verify e t = Inl (jwt_error (InvalidToken msg))"
  shows "protected e req handler st = (error_response 401 (lit ''Unauthorized - Invalid token''), st)"
  unfolding protected_def verify_failure_passed_on [OF assms]
  by (simp add: errorHandler_def error_response_def)

lemma expired_token_500:
  assumes "request_token req = Some t" and "t \<noteq> []"
    and "jwt_verify e t = Inl (jwt_error Expired)"
  shows "protected e req handler st = (error_response 500 (lit ''jwt expired''), st)"
  unfolding protected_def verify_failure_passed_on [OF assms]
  by (simp add: errorHandler_def error_response_def)


section \<open>Properties of the handlers\<close>

lemma respond_loans_eq:
  "processLoansByRole (mem st) loans (role user) = (h', ps) \<Longrightarrow>
   respond_loans loans user st = (Inr (ok (LoansBody (length ps) ps)), st\<lparr>mem := h'\<rparr>)"
  by (simp add: respond_loans_def)

lemma shaped_fields:
  assumes "wf_state st" and "set loans \<subseteq> set (loansData st)"
    and "processLoansByRole (mem st) loans r = (h', ps)" and "k \<noteq> lit ''applicant''"
  shows "map (\<lambda>p. get h' p k) ps = map (\<lambda>l. get (mem st) l k) loans"
proof -
  from assms(1,2) have "\<forall>l \<in> set loans. l < length (mem st)"
    by (auto simp: wf_state_def)
  from this assms(3,4) show ?thesis by (rule processLoansByRole_fields)
qed

lemma list_ex_id:
  "list_ex (\<lambda>loan. strict_eq (get h loan (lit ''id'')) v) loans
     = (\<exists>loan \<in> set loans. get h loan (lit ''id'') = v)"
  by (simp add: list_ex_iff strict_eq_def)

lemma is_expired_iff: "is_expired e t h loan = matures_before e h t loan"
  by (simp add: is_expired_def matures_before_def split: option.splits)

lemma simple_lower_idem: "simple_lower (simple_lower c) = simple_lower c"
  by (auto simp: simple_lower_def)

lemma same_letter_lower: "same_letter a b \<Longrightarrow> simple_lower a = simple_lower b"
  by (auto simp: same_letter_def simple_lower_idem)

lemma differ_only_in_case_lower:
  "differ_only_in_case p q \<Longrightarrow> map simple_lower p = map simple_lower q"
  unfolding differ_only_in_case_def
  by (induction p q rule: list_all2_induct) (simp_all add: same_letter_lower)

lemma lower_units_below_256:
  "below_256 s \<Longrightarrow> lower_units seen s = map simple_lower s"
  by (induction s arbitrary: seen) (auto simp: below_256_def)

lemma lowers_latin1_demo_env: "lowers_latin1 demo_env"
  by (simp add: lowers_latin1_def demo_env_def toLowerCase_fragment_def lower_units_below_256)

lemma email_toLowerCase_typed:
  "applicant_email h loan = Some s \<Longrightarrow> email_toLowerCase e h loan = Inr (String_toLowerCase e s)"
  by (auto simp: applicant_email_def email_toLowerCase_def get_prop_def split: val.splits)

lemma filter_throwing_total:
  "\<forall>x \<in> set xs. f x = Inr (P x) \<Longrightarrow> filter_throwing f xs = Inr (filter P xs)"
  by (induction xs) simp_all

lemma get_user_loans_lower:
  "String_toLowerCase e (params_userEmail req) = String_toLowerCase e (params_userEmail req') \<Longrightarrow>
   get_user_loans e req user st = get_user_loans e req' user st"
  by (simp add: get_user_loans_def cong: sum.case_cong)


section \<open>The claims\<close>

text \<open>
  \<^bold>\<open>C1.\<close> Shaping a list of loan records for an identity whose role is \<^verbatim>\<open>staff\<close>
  yields records each of whose \<^verbatim>\<open>applicant\<close> is an object without a
  \<^verbatim>\<open>totalLoan\<close> key. Shaping the same list for \<^verbatim>\<open>admin\<close> or
  \<^verbatim>\<open>superAdmin\<close> yields, in the same order, records with exactly the properties of the
  store's records, and leaves every object of the store as it was, so every applicant
  keeps its \<^verbatim>\<open>totalLoan\<close>.
\<close>

theorem shaping_hides_totalLoan_from_staff_only:
  assumes "\<forall>l \<in> set loans. l < length h"
    and "processLoansByRole h loans userRole = (h', ps)"
  shows "(userRole = Str (lit ''staff'') \<longrightarrow>
            (\<forall>p \<in> set ps. \<exists>a. get h' p (lit ''applicant'') = Ref a \<and> \<not> has_key h' a (lit ''totalLoan'')))
       \<and> (userRole = Str (lit ''admin'') \<or> userRole = Str (lit ''superAdmin'') \<longrightarrow>
            length ps = length loans
            \<and> (\<forall>i < length loans. h' ! (ps ! i) = h ! (loans ! i))
            \<and> (\<forall>a < length h. h' ! a = h ! a)
            \<and> (\<forall>i < length loans. \<forall>a < length h.
                  get h (loans ! i) (lit ''applicant'') = Ref a \<longrightarrow>
                  get h' (ps ! i) (lit ''applicant'') = Ref a
                  \<and> has_key h' a (lit ''totalLoan'') = has_key h a (lit ''totalLoan'')))"
proof -
  have staff: "\<forall>p \<in> set ps. \<exists>a. get h' p (lit ''applicant'') = Ref a \<and> \<not> has_key h' a (lit ''totalLoan'')"
    if "userRole = Str (lit ''staff'')"
  proof -
    from that assms(2) have "processLoansByRole h loans (Str (lit ''staff'')) = (h', ps)" by simp
    from processLoansByRole_staff [OF this] show ?thesis by blast
  qed
  have other: "length ps = length loans
        \<and> (\<forall>i < length loans. h' ! (ps ! i) = h ! (loans ! i))
        \<and> (\<forall>a < length h. h' ! a = h ! a)
        \<and> (\<forall>i < length loans. \<forall>a < length h.
              get h (loans ! i) (lit ''applicant'') = Ref a \<longrightarrow>
              get h' (ps ! i) (lit ''applicant'') = Ref a
              \<and> has_key h' a (lit ''totalLoan'') = has_key h a (lit ''totalLoan''))"
    if "userRole = Str (lit ''admin'') \<or> userRole = Str (lit ''superAdmin'')"
  proof -
    from that have "userRole \<noteq> Str (lit ''staff'')" by auto
    from processLoansByRole_other [OF this assms(1)] assms(2)
    have h': "h' = h @ map (\<lambda>l. h ! l) loans"
      and ps: "ps = [length h ..< length h + length loans]" by simp_all
    have len: "length ps = length loans" unfolding ps by simp
    have cells: "\<forall>i < length loans. h' ! (ps ! i) = h ! (loans ! i)"
      unfolding h' ps by (simp add: nth_append)
    have old: "\<forall>a < length h. h' ! a = h ! a"
      unfolding h' by (simp add: nth_append)
    from cells old
    have "\<forall>i < length loans. \<forall>a < length h.
              get h (loans ! i) (lit ''applicant'') = Ref a \<longrightarrow>
              get h' (ps ! i) (lit ''applicant'') = Ref a
              \<and> has_key h' a (lit ''totalLoan'') = has_key h a (lit ''totalLoan'')"
      by (simp add: get_def has_key_def)
    with len cells old show ?thesis by blast
  qed
  from staff other show ?thesis by blast
qed

theorem shaping_hides_totalLoan_from_staff_only_witness:
  "0 < length demo_heap
   \<and> (\<exists>h'. processLoansByRole demo_heap [0] (Str (lit ''staff'')) = (h', [6])
          \<and> get h' 6 (lit ''applicant'') = Ref 7 \<and> \<not> has_key h' 7 (lit ''totalLoan''))
   \<and> (\<exists>h'. processLoansByRole demo_heap [0] (Str (lit ''admin'')) = (h', [6])
          \<and> h' ! 6 = demo_heap ! 0 \<and> has_key h' 1 (lit ''totalLoan''))"
proof -
  have len: "length demo_heap = 6" by (simp add: demo_heap_def)
  have b: "\<forall>l \<in> set [0]. l < length demo_heap" by (simp add: len)
  obtain hs where rs: "processLoansByRole demo_heap [0] (Str (lit ''staff'')) = (hs, [6])"
    by (simp add: processLoan_staff len)
  obtain ha where ra: "processLoansByRole demo_heap [0] (Str (lit ''admin'')) = (ha, [6])"
    and ha: "ha = demo_heap @ [demo_heap ! 0]"
    by (simp add: processLoan_other len)
  have old: "has_key ha 1 (lit ''totalLoan'')"
    unfolding ha by (simp add: has_key_def nth_append len) (simp add: demo_heap_def)
  have s7: "get hs 6 (lit ''applicant'') = Ref 7"
    using rs by (auto simp: processLoan_staff len get_def nth_append field_update_same)
  from shaping_hides_totalLoan_from_staff_only [OF b rs] s7
  have s: "\<not> has_key hs 7 (lit ''totalLoan'')" by simp
  from shaping_hides_totalLoan_from_staff_only [OF b ra]
  have a: "ha ! 6 = demo_heap ! 0" by simp
  show ?thesis using len rs ra s7 s a old by simp
qed

text \<open>
  \<^bold>\<open>C2.\<close> A request to a protected route with an expired token: \<^verbatim>\<open>jwt.verify\<close>
  throws a \<^verbatim>\<open>TokenExpiredError\<close>, whose name is not \<^verbatim>\<open>JsonWebTokenError\<close>, so
  \<^verbatim>\<open>authMiddleware\<close> passes it on without a status code and \<^verbatim>\<open>errorHandler\<close>
  answers 500 with the message \<^verbatim>\<open>jwt expired\<close>, on each of the four protected routes.
  A malformed token is answered 401 with \<^verbatim>\<open>Unauthorized - Invalid token\<close>.
\<close>

theorem expired_token_is_answered_500:
  "jwt_verify demo_env (lit ''old'') = Inl (jwt_error Expired)
   \<and> GET_loans demo_env (demo_request\<lparr>cookies_token := Some (lit ''old'')\<rparr>) demo_state
       = (error_response 500 (lit ''jwt expired''), demo_state)
   \<and> GET_expired_loans demo_env 0 (demo_request\<lparr>cookies_token := Some (lit ''old'')\<rparr>) demo_state
       = (error_response 500 (lit ''jwt expired''), demo_state)
   \<and> GET_user_loans demo_env (demo_request\<lparr>cookies_token := Some (lit ''old'')\<rparr>) demo_state
       = (error_response 500 (lit ''jwt expired''), demo_state)
   \<and> DELETE_loan demo_env (demo_request\<lparr>cookies_token := Some (lit ''old'')\<rparr>) demo_state
       = (error_response 500 (lit ''jwt expired''), demo_state)
   \<and> GET_loans demo_env (demo_request\<lparr>cookies_token := Some (lit ''x.y.z'')\<rparr>) demo_state
       = (error_response 401 (lit ''Unauthorized - Invalid token''), demo_state)"
proof -
  let ?req = "demo_request\<lparr>cookies_token := Some (lit ''old'')\<rparr>"
  let ?bad = "demo_request\<lparr>cookies_token := Some (lit ''x.y.z'')\<rparr>"
  have t: "request_token ?req = Some (lit ''old'')" by (simp add: request_token_def)
  have n: "(lit ''old'') \<noteq> []" by simp
  have v: "jwt_verify demo_env (lit ''old'') = Inl (jwt_error Expired)" by (simp add: demo_env_def)
  have t': "request_token ?bad = Some (lit ''x.y.z'')" by (simp add: request_token_def)
  have n': "(lit ''x.y.z'') \<noteq> []" by simp
  have v': "jwt_verify demo_env (lit ''x.y.z'') = Inl (jwt_error (InvalidToken (lit ''jwt malformed'')))"
    by (simp add: demo_env_def)
  show ?thesis
    unfolding GET_loans_def GET_expired_loans_def GET_user_loans_def DELETE_loan_def
      expired_token_500 [OF t n v] invalid_token_401 [OF t' n' v']
    using v by simp
qed

text \<open>
  \<^bold>\<open>C3.\<close> As stated (no object of the records returned to \<^verbatim>\<open>admin\<close> or
  \<^verbatim>\<open>superAdmin\<close>, applicant sub-objects included, is an object of the store) the claim
  fails: the returned record is a new object, but its \<^verbatim>\<open>applicant\<close> is the store's own
  applicant object, and a write through the response is a write to the store.
\<close>

theorem admin_response_shares_applicant_counterexample:
  "record_objects (fst (processLoansByRole demo_heap [0] (Str (lit ''admin''))))
                  (snd (processLoansByRole demo_heap [0] (Str (lit ''admin''))))
     \<inter> record_objects demo_heap [0] = {1}
   \<and> get (fst (processLoansByRole demo_heap [0] (Str (lit ''admin'')))) 6 (lit ''applicant'') = Ref 1
   \<and> get demo_heap 0 (lit ''applicant'') = Ref 1
   \<and> get demo_heap 1 (lit ''totalLoan'') = Num 13000
   \<and> get (set_prop (fst (processLoansByRole demo_heap [0] (Str (lit ''admin'')))) 1 (lit ''totalLoan'') (Num 0))
          1 (lit ''totalLoan'') = Num 0"
proof -
  have len: "length demo_heap = 6" by (simp add: demo_heap_def)
  have run: "processLoansByRole demo_heap [0] (Str (lit ''admin'')) = (demo_heap @ [demo_heap ! 0], [6])"
    by (simp add: processLoan_other len)
  have a0: "get demo_heap 0 (lit ''applicant'') = Ref 1"
    by (simp add: demo_heap_def get_def field_def)
  have a6: "get (demo_heap @ [demo_heap ! 0]) 6 (lit ''applicant'') = Ref 1"
    using a0 by (simp add: get_def nth_append len)
  have t1: "get demo_heap 1 (lit ''totalLoan'') = Num 13000"
    by (simp add: demo_heap_def get_def field_def)
  have w: "get (set_prop (demo_heap @ [demo_heap ! 0]) 1 (lit ''totalLoan'') (Num 0)) 1 (lit ''totalLoan'') = Num 0"
    by (simp add: set_prop_def get_def len field_update_same)
  show ?thesis
    unfolding run fst_conv snd_conv using a0 a6 t1 w by (simp add: record_objects_def)
qed

text \<open>
  \<^bold>\<open>C3, amended.\<close> Shaping for \<^verbatim>\<open>admin\<close> or \<^verbatim>\<open>superAdmin\<close> returns top-level
  copies of the store's records, not aliases: each returned record is a new object, at an
  address that did not exist before the call, so it is no object of the store; shaping
  changes no object that existed before, and neither does a write to a property of a
  returned record. The \<^verbatim>\<open>applicant\<close> property of each returned record is the same
  reference as the store record's: the applicant sub-object is shared with the store, not
  copied.
\<close>

theorem admin_shaping_copies_top_level_only:
  assumes "\<forall>l \<in> set loans. l < length h"
    and "userRole = Str (lit ''admin'') \<or> userRole = Str (lit ''superAdmin'')"
    and "processLoansByRole h loans userRole = (h', ps)"
  shows "(\<forall>p \<in> set ps. length h \<le> p \<and> p < length h')
       \<and> set ps \<inter> set loans = {}
       \<and> distinct ps
       \<and> (\<forall>a < length h. h' ! a = h ! a)
       \<and> (\<forall>p \<in> set ps. \<forall>a < length h. \<forall>k v. set_prop h' p k v ! a = h ! a)
       \<and> (\<forall>i < length loans. get h' (ps ! i) (lit ''applicant'') = get h (loans ! i) (lit ''applicant''))"
proof -
  from assms(2) have ns: "userRole \<noteq> Str (lit ''staff'')" by auto
  from processLoansByRole_other [OF ns assms(1)] assms(3)
  have h': "h' = h @ map (\<lambda>l. h ! l) loans"
    and ps: "ps = [length h ..< length h + length loans]" by simp_all
  have fresh: "\<forall>p \<in> set ps. length h \<le> p \<and> p < length h'"
    unfolding h' ps by simp
  have disj: "set ps \<inter> set loans = {}"
    using fresh assms(1) by fastforce
  have dist: "distinct ps" unfolding ps by simp
  have old: "\<forall>a < length h. h' ! a = h ! a" unfolding h' by (simp add: nth_append)
  have app: "\<forall>i < length loans. get h' (ps ! i) (lit ''applicant'') = get h (loans ! i) (lit ''applicant'')"
    unfolding h' ps by (simp add: get_def nth_append)
  have writes: "\<forall>p \<in> set ps. \<forall>a < length h. \<forall>k v. set_prop h' p k v ! a = h ! a"
    using fresh old by (auto simp: set_prop_def)
  from fresh disj dist old writes app show ?thesis by blast
qed

theorem admin_shaping_copies_top_level_only_witness:
  "0 < length demo_heap
   \<and> (\<exists>h'. processLoansByRole demo_heap [0] (Str (lit ''superAdmin'')) = (h', [6])
          \<and> length demo_heap \<le> 6 \<and> 6 < length h'
          \<and> h' ! 1 = demo_heap ! 1
          \<and> get h' 6 (lit ''applicant'') = get demo_heap 0 (lit ''applicant''))"
proof -
  have len: "length demo_heap = 6" by (simp add: demo_heap_def)
  have b: "\<forall>l \<in> set [0]. l < length demo_heap" by (simp add: len)
  have r: "Str (lit ''superAdmin'') = Str (lit ''admin'') \<or> Str (lit ''superAdmin'') = Str (lit ''superAdmin'')" by simp
  obtain h' where run: "processLoansByRole demo_heap [0] (Str (lit ''superAdmin'')) = (h', [6])"
    by (simp add: processLoan_other len)
  from admin_shaping_copies_top_level_only [OF b r run]
  show ?thesis using run len by simp
qed

text \<open>
  \<^bold>\<open>C4.\<close> A \<^verbatim>\<open>DELETE /api/loans/:loanId\<close> authenticated as \<^verbatim>\<open>superAdmin\<close>, with a
  \<^verbatim>\<open>loanId\<close> that is the \<^verbatim>\<open>id\<close> of a loan of the store, is answered 200 with the
  success envelope and leaves the whole state as it was; an authenticated
  \<^verbatim>\<open>GET /api/loans\<close> without a filter that follows it returns as many records as the
  store holds, one of them with that \<^verbatim>\<open>id\<close>.
\<close>

theorem delete_acknowledges_without_removing:
  assumes "authMiddleware e req = Inr user" and "role user = Str (lit ''superAdmin'')"
    and "loan \<in> set (loansData st)"
    and "get (mem st) loan (lit ''id'') = Str (params_loanId req)"
    and "wf_state st"
    and "authMiddleware e req' = Inr user'" and "query_status req' = None"
  shows "DELETE_loan e req st =
           (ok (MessageBody (lit ''Loan with ID '' @ params_loanId req @ lit '' has been deleted'')), st)
       \<and> (\<exists>h' ps. GET_loans e req' (snd (DELETE_loan e req st)) =
                     (ok (LoansBody (length (loansData st)) ps), st\<lparr>mem := h'\<rparr>)
                 \<and> (\<exists>p \<in> set ps. get h' p (lit ''id'') = Str (params_loanId req)))"
proof -
  have allowed: "authorizeRoles [Str (lit ''superAdmin'')] user = Inr ()"
    using assms(2) by (simp add: authorizeRoles_def)
  have found: "list_ex (\<lambda>l. strict_eq (get (mem st) l (lit ''id'')) (Str (params_loanId req)))
                 (loansData st)"
    using assms(3,4) by (auto simp: list_ex_id)
  have del: "DELETE_loan e req st =
           (ok (MessageBody (lit ''Loan with ID '' @ params_loanId req @ lit '' has been deleted'')), st)"
    unfolding DELETE_loan_def protected_authenticated [OF assms(1)]
    using allowed found by (simp add: finish_def delete_loan_def)
  obtain h' ps where run: "processLoansByRole (mem st) (loansData st) (role user') = (h', ps)"
    by (cases "processLoansByRole (mem st) (loansData st) (role user')")
  have bound: "\<forall>l \<in> set (loansData st). l < length (mem st)"
    using assms(5) by (simp add: wf_state_def)
  have len: "length ps = length (loansData st)"
    using run by (rule processLoansByRole_length)
  have "get_loans req' user' st = (Inr (ok (LoansBody (length ps) ps)), st\<lparr>mem := h'\<rparr>)"
    using assms(7) respond_loans_eq [OF run] by (simp add: get_loans_def)
  then have get: "GET_loans e req' st = (ok (LoansBody (length (loansData st)) ps), st\<lparr>mem := h'\<rparr>)"
    unfolding GET_loans_def protected_authenticated [OF assms(6)]
    by (simp add: finish_def len)
  have ids: "map (\<lambda>p. get h' p (lit ''id'')) ps = map (\<lambda>l. get (mem st) l (lit ''id'')) (loansData st)"
    using bound run by (rule processLoansByRole_fields) simp
  have "Str (params_loanId req) \<in> set (map (\<lambda>l. get (mem st) l (lit ''id'')) (loansData st))"
    using assms(3,4) by force
  then have "Str (params_loanId req) \<in> set (map (\<lambda>p. get h' p (lit ''id'')) ps)"
    by (simp only: ids)
  then have "\<exists>p \<in> set ps. get h' p (lit ''id'') = Str (params_loanId req)" by auto
  with del get show ?thesis by auto
qed

theorem delete_acknowledges_without_removing_witness:
  "authMiddleware demo_env (demo_request\<lparr>cookies_token := Some (lit ''superAdmin''), params_loanId := lit ''900199''\<rparr>)
     = Inr (demo_user (lit ''superAdmin''))
   \<and> get (mem demo_state) 0 (lit ''id'') = Str (lit ''900199'')
   \<and> DELETE_loan demo_env (demo_request\<lparr>cookies_token := Some (lit ''superAdmin''), params_loanId := lit ''900199''\<rparr>)
        demo_state = (ok (MessageBody (lit ''Loan with ID 900199 has been deleted'')), demo_state)
   \<and> (\<exists>h' ps. GET_loans demo_env (demo_request\<lparr>cookies_token := Some (lit ''staff'')\<rparr>)
                  (snd (DELETE_loan demo_env
                          (demo_request\<lparr>cookies_token := Some (lit ''superAdmin''), params_loanId := lit ''900199''\<rparr>)
                          demo_state))
                = (ok (LoansBody 2 ps), demo_state\<lparr>mem := h'\<rparr>)
              \<and> (\<exists>p \<in> set ps. get h' p (lit ''id'') = Str (lit ''900199'')))"
proof -
  let ?req = "demo_request\<lparr>cookies_token := Some (lit ''superAdmin''), params_loanId := lit ''900199''\<rparr>"
  let ?req' = "demo_request\<lparr>cookies_token := Some (lit ''staff'')\<rparr>"
  have a1: "authMiddleware demo_env ?req = Inr (demo_user (lit ''superAdmin''))"
    by (simp add: authMiddleware_def request_token_def demo_env_def demo_request_def)
  have a2: "authMiddleware demo_env ?req' = Inr (demo_user (lit ''staff''))"
    by (simp add: authMiddleware_def request_token_def demo_env_def demo_request_def)
  have r: "role (demo_user (lit ''superAdmin'')) = Str (lit ''superAdmin'')" by (simp add: demo_user_def)
  have m: "0 \<in> set (loansData demo_state)" by (simp add: demo_state_def)
  have i: "get (mem demo_state) 0 (lit ''id'') = Str (params_loanId ?req)"
    by (simp add: demo_state_def demo_heap_def get_def field_def)
  have w: "wf_state demo_state" by (simp add: wf_state_def demo_state_def demo_heap_def)
  have q: "query_status ?req' = None" by (simp add: demo_request_def)
  have l: "length (loansData demo_state) = 2" by (simp add: demo_state_def)
  have pid: "params_loanId ?req = lit ''900199''" by simp
  note t = delete_acknowledges_without_removing [OF a1 r m i w a2 q, unfolded l pid]
  from t have d: "DELETE_loan demo_env ?req demo_state =
                    (ok (MessageBody (lit ''Loan with ID '' @ lit ''900199'' @ lit '' has been deleted'')), demo_state)"
    by (rule conjunct1)
  from t obtain h' ps where
    g: "GET_loans demo_env ?req' (snd (DELETE_loan demo_env ?req demo_state)) =
          (ok (LoansBody 2 ps), demo_state\<lparr>mem := h'\<rparr>)"
    and p: "\<exists>p \<in> set ps. get h' p (lit ''id'') = Str (lit ''900199'')"
    by blast
  from g p have "\<exists>h' ps. GET_loans demo_env ?req' (snd (DELETE_loan demo_env ?req demo_state)) =
          (ok (LoansBody 2 ps), demo_state\<lparr>mem := h'\<rparr>)
        \<and> (\<exists>p \<in> set ps. get h' p (lit ''id'') = Str (lit ''900199''))" by blast
  moreover from d have "DELETE_loan demo_env ?req demo_state =
      (ok (MessageBody (lit ''Loan with ID 900199 has been deleted'')), demo_state)"
    by (simp add: lit_append [symmetric])
  moreover from i have "get (mem demo_state) 0 (lit ''id'') = Str (lit ''900199'')" by simp
  ultimately show ?thesis using a1 by blast
qed

text \<open>
  \<^bold>\<open>C5.\<close> An authenticated \<^verbatim>\<open>DELETE /api/loans/:loanId\<close> whose identity has role
  \<^verbatim>\<open>staff\<close> or \<^verbatim>\<open>admin\<close> is answered 403 whatever the store holds, and the state is
  left as it was; with role \<^verbatim>\<open>superAdmin\<close> and no loan of the store whose \<^verbatim>\<open>id\<close> is
  \<^verbatim>\<open>loanId\<close> it is answered 404.
\<close>

theorem delete_forbidden_or_not_found:
  assumes "authMiddleware e req = Inr user"
  shows "(role user = Str (lit ''staff'') \<or> role user = Str (lit ''admin'') \<longrightarrow>
            (\<forall>st. DELETE_loan e req st =
                    (error_response 403 (lit ''Forbidden - Insufficient permissions''), st)))
       \<and> (role user = Str (lit ''superAdmin'')
            \<and> (\<forall>loan \<in> set (loansData st). get (mem st) loan (lit ''id'') \<noteq> Str (params_loanId req)) \<longrightarrow>
            DELETE_loan e req st = (error_response 404 (lit ''Loan not found''), st))"
proof -
  have forbidden: "DELETE_loan e req s =
                     (error_response 403 (lit ''Forbidden - Insufficient permissions''), s)"
    if "role user = Str (lit ''staff'') \<or> role user = Str (lit ''admin'')" for s
  proof -
    from that have "authorizeRoles [Str (lit ''superAdmin'')] user =
        Inl ((new_Error (lit ''Forbidden - Insufficient permissions''))\<lparr>statusCode := Some 403\<rparr>)"
      by (auto simp: authorizeRoles_def)
    then show ?thesis
      unfolding DELETE_loan_def protected_authenticated [OF assms]
      by (simp add: finish_def errorHandler_status)
  qed
  have missing: "DELETE_loan e req st = (error_response 404 (lit ''Loan not found''), st)"
    if "role user = Str (lit ''superAdmin'')"
      and "\<forall>loan \<in> set (loansData st). get (mem st) loan (lit ''id'') \<noteq> Str (params_loanId req)"
  proof -
    from that(1) have "authorizeRoles [Str (lit ''superAdmin'')] user = Inr ()"
      by (simp add: authorizeRoles_def)
    moreover from that(2) have "delete_loan req user st =
        (Inl ((new_Error (lit ''Loan not found''))\<lparr>statusCode := Some 404\<rparr>), st)"
      by (simp add: delete_loan_def list_ex_id)
    ultimately show ?thesis
      unfolding DELETE_loan_def protected_authenticated [OF assms]
      by (simp add: finish_def errorHandler_status)
  qed
  from forbidden missing show ?thesis by blast
qed

theorem delete_forbidden_or_not_found_witness:
  "authMiddleware demo_env (demo_request\<lparr>cookies_token := Some (lit ''staff''), params_loanId := lit ''900199''\<rparr>)
     = Inr (demo_user (lit ''staff''))
   \<and> DELETE_loan demo_env (demo_request\<lparr>cookies_token := Some (lit ''staff''), params_loanId := lit ''900199''\<rparr>)
        demo_state = (error_response 403 (lit ''Forbidden - Insufficient permissions''), demo_state)
   \<and> authMiddleware demo_env (demo_request\<lparr>cookies_token := Some (lit ''superAdmin''), params_loanId := lit ''7''\<rparr>)
     = Inr (demo_user (lit ''superAdmin''))
   \<and> DELETE_loan demo_env (demo_request\<lparr>cookies_token := Some (lit ''superAdmin''), params_loanId := lit ''7''\<rparr>)
        demo_state = (error_response 404 (lit ''Loan not found''), demo_state)"
proof -
  have a1: "authMiddleware demo_env (demo_request\<lparr>cookies_token := Some (lit ''staff''), params_loanId := lit ''900199''\<rparr>)
     = Inr (demo_user (lit ''staff''))"
    by (simp add: authMiddleware_def request_token_def demo_env_def demo_request_def)
  have a2: "authMiddleware demo_env (demo_request\<lparr>cookies_token := Some (lit ''superAdmin''), params_loanId := lit ''7''\<rparr>)
     = Inr (demo_user (lit ''superAdmin''))"
    by (simp add: authMiddleware_def request_token_def demo_env_def demo_request_def)
  have none: "\<forall>loan \<in> set (loansData demo_state).
      get (mem demo_state) loan (lit ''id'')
        \<noteq> Str (params_loanId (demo_request\<lparr>cookies_token := Some (lit ''superAdmin''), params_loanId := lit ''7''\<rparr>))"
    by (simp add: demo_state_def demo_heap_def get_def field_def)
  from delete_forbidden_or_not_found [OF a1, of demo_state]
       delete_forbidden_or_not_found [OF a2, of demo_state] a1 a2 none
  show ?thesis by (simp add: demo_user_def)
qed

text \<open>
  \<^bold>\<open>C6.\<close> As stated the claim fails twice. A login request without a parsed body has
  neither \<^verbatim>\<open>email\<close> nor \<^verbatim>\<open>password\<close>, and is answered 500: destructuring
  \<^verbatim>\<open>req.body\<close> throws before the test for the two fields. A request whose email
  matches no staff record and whose password is present and empty is answered 400, not
  401: the test for the two fields is a test of truthiness and comes first.
\<close>

theorem login_without_body_or_with_empty_password_counterexample:
  "body demo_request = None
   \<and> POST_login demo_env demo_request demo_state
       = (error_response 500
            (lit ''Cannot destructure property '' @ quoted (lit ''email'') @ lit '' of ''
             @ quoted (lit ''req.body'') @ lit '' as it is undefined.''), demo_state)
   \<and> map_of [(lit ''email'', Str (lit ''nobody@example.com'')), (lit ''password'', Str [])]
        (lit ''password'') = Some (Str [])
   \<and> find (\<lambda>s. get (mem demo_state) s (lit ''email'') = Str (lit ''nobody@example.com''))
        (staffsData demo_state) = None
   \<and> POST_login demo_env
        (demo_request\<lparr>body := Some [(lit ''email'', Str (lit ''nobody@example.com'')),
                                      (lit ''password'', Str [])]\<rparr>)
        demo_state
       = (error_response 400 (lit ''Email and password are required''), demo_state)"
proof -
  have none: "body demo_request = None" by (simp add: demo_request_def)
  have msg: "lit ''Cannot destructure property '' @ quoted (lit ''email'') @ lit '' of ''
             @ quoted (lit ''req.body'') @ lit '' as it is undefined.'' \<noteq> []"
    by (simp add: quoted_def)
  have r1: "POST_login demo_env demo_request demo_state
       = (error_response 500
            (lit ''Cannot destructure property '' @ quoted (lit ''email'') @ lit '' of ''
             @ quoted (lit ''req.body'') @ lit '' as it is undefined.''), demo_state)"
    using msg
    by (simp add: POST_login_def login_def none finish_def errorHandler_def TypeError_def
          error_response_def)
  have f: "find (\<lambda>s. get (mem demo_state) s (lit ''email'') = Str (lit ''nobody@example.com''))
        (staffsData demo_state) = None"
    by (simp add: demo_state_def demo_heap_def get_def field_def)
  have r2: "POST_login demo_env
        (demo_request\<lparr>body := Some [(lit ''email'', Str (lit ''nobody@example.com'')),
                                      (lit ''password'', Str [])]\<rparr>)
        demo_state
       = (error_response 400 (lit ''Email and password are required''), demo_state)"
    by (simp add: POST_login_def login_def finish_def errorHandler_status field_def)
  from none r1 f r2 show ?thesis by simp
qed

text \<open>
  \<^bold>\<open>C6, amended.\<close> \<^verbatim>\<open>POST /api/login\<close> with a body that was parsed to an object:
  when \<^verbatim>\<open>email\<close> or \<^verbatim>\<open>password\<close> is absent from the body, or falsy (the empty
  string, for one), the answer is 400. When both are truthy and no staff record has that
  email, or the record the lookup finds (the first with that email) has a stored password
  other than the one supplied, the answer is 401 with the one message
  \<^verbatim>\<open>Invalid credentials\<close>. The state is left as it was.
\<close>

theorem login_failures:
  assumes "body req = Some b"
  shows "(map_of b (lit ''email'') = None \<or> map_of b (lit ''password'') = None
          \<or> \<not> truthy (field b (lit ''email'')) \<or> \<not> truthy (field b (lit ''password'')) \<longrightarrow>
            POST_login e req st = (error_response 400 (lit ''Email and password are required''), st))
       \<and> (truthy (field b (lit ''email'')) \<and> truthy (field b (lit ''password''))
            \<and> (\<forall>s \<in> set (staffsData st). get (mem st) s (lit ''email'') \<noteq> field b (lit ''email'')) \<longrightarrow>
            POST_login e req st = (error_response 401 (lit ''Invalid credentials''), st))
       \<and> (truthy (field b (lit ''email'')) \<and> truthy (field b (lit ''password''))
            \<and> find (\<lambda>s. get (mem st) s (lit ''email'') = field b (lit ''email'')) (staffsData st)
                = Some staff
            \<and> get (mem st) staff (lit ''password'') \<noteq> field b (lit ''password'') \<longrightarrow>
            POST_login e req st = (error_response 401 (lit ''Invalid credentials''), st))"
proof -
  have absent: "POST_login e req st = (error_response 400 (lit ''Email and password are required''), st)"
    if "map_of b (lit ''email'') = None \<or> map_of b (lit ''password'') = None
          \<or> \<not> truthy (field b (lit ''email'')) \<or> \<not> truthy (field b (lit ''password''))"
  proof -
    from that have "\<not> truthy (field b (lit ''email'')) \<or> \<not> truthy (field b (lit ''password''))"
      by (auto simp: field_def)
    then show ?thesis
      by (auto simp: POST_login_def login_def assms finish_def errorHandler_status)
  qed
  have unknown: "POST_login e req st = (error_response 401 (lit ''Invalid credentials''), st)"
    if "truthy (field b (lit ''email''))" "truthy (field b (lit ''password''))"
      "\<forall>s \<in> set (staffsData st). get (mem st) s (lit ''email'') \<noteq> field b (lit ''email'')"
  proof -
    from that(3)
    have "find (\<lambda>s. strict_eq (get (mem st) s (lit ''email'')) (field b (lit ''email'')))
            (staffsData st) = None"
      by (simp add: find_None_iff strict_eq_def)
    with that(1,2) show ?thesis
      by (simp add: POST_login_def login_def assms finish_def errorHandler_status)
  qed
  have wrong: "POST_login e req st = (error_response 401 (lit ''Invalid credentials''), st)"
    if "truthy (field b (lit ''email''))" "truthy (field b (lit ''password''))"
      "find (\<lambda>s. get (mem st) s (lit ''email'') = field b (lit ''email'')) (staffsData st)
         = Some staff"
      "get (mem st) staff (lit ''password'') \<noteq> field b (lit ''password'')"
  proof -
    from that(3)
    have "find (\<lambda>s. strict_eq (get (mem st) s (lit ''email'')) (field b (lit ''email'')))
            (staffsData st) = Some staff"
      by (simp add: strict_eq_def)
    moreover from that(4)
    have "\<not> strict_eq (field b (lit ''password'')) (get (mem st) staff (lit ''password''))"
      by (auto simp: strict_eq_def)
    ultimately show ?thesis using that(1,2)
      by (simp add: POST_login_def login_def assms finish_def errorHandler_status)
  qed
  from absent unknown wrong show ?thesis by blast
qed

theorem login_failures_witness:
  "POST_login demo_env (demo_request\<lparr>body := Some [(lit ''email'', Str (lit ''edwin@example.com''))]\<rparr>)
     demo_state
     = (error_response 400 (lit ''Email and password are required''), demo_state)
   \<and> POST_login demo_env
        (demo_request\<lparr>body := Some [(lit ''email'', Str (lit ''nobody@example.com'')),
                                      (lit ''password'', Str (lit ''12345Pass''))]\<rparr>)
        demo_state
     = (error_response 401 (lit ''Invalid credentials''), demo_state)
   \<and> POST_login demo_env
        (demo_request\<lparr>body := Some [(lit ''email'', Str (lit ''edwin@example.com'')),
                                      (lit ''password'', Str (lit ''guess''))]\<rparr>)
        demo_state
     = (error_response 401 (lit ''Invalid credentials''), demo_state)"
proof -
  let ?b1 = "[(lit ''email'', Str (lit ''edwin@example.com''))]"
  let ?b2 = "[(lit ''email'', Str (lit ''nobody@example.com'')),
              (lit ''password'', Str (lit ''12345Pass''))]"
  let ?b3 = "[(lit ''email'', Str (lit ''edwin@example.com'')),
              (lit ''password'', Str (lit ''guess''))]"
  have h1: "map_of ?b1 (lit ''password'') = None" by simp
  have h2: "truthy (field ?b2 (lit ''email'')) \<and> truthy (field ?b2 (lit ''password''))
        \<and> (\<forall>s \<in> set (staffsData demo_state).
              get (mem demo_state) s (lit ''email'') \<noteq> field ?b2 (lit ''email''))"
    by (simp add: field_def get_def demo_state_def demo_heap_def)
  have h3: "truthy (field ?b3 (lit ''email'')) \<and> truthy (field ?b3 (lit ''password''))
        \<and> find (\<lambda>s. get (mem demo_state) s (lit ''email'') = field ?b3 (lit ''email''))
             (staffsData demo_state) = Some 4
        \<and> get (mem demo_state) 4 (lit ''password'') \<noteq> field ?b3 (lit ''password'')"
    by (simp add: field_def get_def demo_state_def demo_heap_def)
  from login_failures [where req = "demo_request\<lparr>body := Some ?b1\<rparr>" and b = ?b1
                         and e = demo_env and st = demo_state] h1
  have c1: "POST_login demo_env (demo_request\<lparr>body := Some ?b1\<rparr>) demo_state
              = (error_response 400 (lit ''Email and password are required''), demo_state)"
    by simp
  from login_failures [where req = "demo_request\<lparr>body := Some ?b2\<rparr>" and b = ?b2
                         and e = demo_env and st = demo_state] h2
  have c2: "POST_login demo_env (demo_request\<lparr>body := Some ?b2\<rparr>) demo_state
              = (error_response 401 (lit ''Invalid credentials''), demo_state)"
    by simp
  from login_failures [where req = "demo_request\<lparr>body := Some ?b3\<rparr>" and b = ?b3
                         and e = demo_env and st = demo_state and staff = 4] h3
  have c3: "POST_login demo_env (demo_request\<lparr>body := Some ?b3\<rparr>) demo_state
              = (error_response 401 (lit ''Invalid credentials''), demo_state)"
    by simp
  from c1 c2 c3 show ?thesis by (intro conjI)
qed

text \<open>
  \<^bold>\<open>C7.\<close> For every current time \<^verbatim>\<open>t\<close>, an authenticated
  \<^verbatim>\<open>GET /api/expired-loans\<close> answers 200 with the shaped copies of a list of loans that
  is the loan data set restricted, in its order, to the loans whose maturity date is
  strictly before \<^verbatim>\<open>t\<close>: a loan of the data set is in the list exactly when its
  maturity date is before \<^verbatim>\<open>t\<close>, and the list has no other element. The records
  of the answer carry, one for one, the properties of these loans (other than
  \<^verbatim>\<open>applicant\<close>, which the shaper may replace).
\<close>

theorem expired_loans_are_those_maturing_before_now:
  assumes "authMiddleware e req = Inr user" and "wf_state st"
  shows "\<exists>expiredLoans h' ps.
           GET_expired_loans e t req st = (ok (LoansBody (length expiredLoans) ps), st\<lparr>mem := h'\<rparr>)
         \<and> processLoansByRole (mem st) expiredLoans (role user) = (h', ps)
         \<and> expiredLoans = filter (matures_before e (mem st) t) (loansData st)
         \<and> set expiredLoans = {loan \<in> set (loansData st). matures_before e (mem st) t loan}
         \<and> (\<forall>loan \<in> set (loansData st).
               \<not> matures_before e (mem st) t loan \<longrightarrow> loan \<notin> set expiredLoans)
         \<and> (\<forall>k. k \<noteq> lit ''applicant'' \<longrightarrow>
               map (\<lambda>p. get h' p k) ps = map (\<lambda>l. get (mem st) l k) expiredLoans)"
proof -
  let ?xs = "filter (matures_before e (mem st) t) (loansData st)"
  obtain h' ps where run: "processLoansByRole (mem st) ?xs (role user) = (h', ps)"
    by (cases "processLoansByRole (mem st) ?xs (role user)")
  have same: "filter (is_expired e t (mem st)) (loansData st) = ?xs"
    by (simp add: is_expired_iff [abs_def])
  have len: "length ps = length ?xs" using run by (rule processLoansByRole_length)
  have "get_expired_loans e t user st = (Inr (ok (LoansBody (length ps) ps)), st\<lparr>mem := h'\<rparr>)"
    unfolding get_expired_loans_def same Let_def using run by (rule respond_loans_eq)
  then have "GET_expired_loans e t req st = (ok (LoansBody (length ?xs) ps), st\<lparr>mem := h'\<rparr>)"
    unfolding GET_expired_loans_def protected_authenticated [OF assms(1)]
    by (simp add: finish_def len)
  moreover have "\<forall>k. k \<noteq> lit ''applicant'' \<longrightarrow>
               map (\<lambda>p. get h' p k) ps = map (\<lambda>l. get (mem st) l k) ?xs"
    using shaped_fields [OF assms(2) _ run] by simp
  ultimately show ?thesis using run by auto
qed

theorem expired_loans_are_those_maturing_before_now_witness:
  "authMiddleware demo_env (demo_request\<lparr>cookies_token := Some (lit ''admin'')\<rparr>) = Inr (demo_user (lit ''admin''))
   \<and> (\<exists>h' ps. GET_expired_loans demo_env 1800000000000 (demo_request\<lparr>cookies_token := Some (lit ''admin'')\<rparr>)
                  demo_state = (ok (LoansBody 1 ps), demo_state\<lparr>mem := h'\<rparr>)
              \<and> processLoansByRole (mem demo_state) [0] (Str (lit ''admin'')) = (h', ps)
              \<and> map (\<lambda>p. get h' p (lit ''id'')) ps = [Str (lit ''900199'')])"
proof -
  let ?req = "demo_request\<lparr>cookies_token := Some (lit ''admin'')\<rparr>"
  have a: "authMiddleware demo_env ?req = Inr (demo_user (lit ''admin''))"
    by (simp add: authMiddleware_def request_token_def demo_env_def demo_request_def)
  have f: "filter (matures_before demo_env (mem demo_state) 1800000000000) (loansData demo_state) = [0]"
    by (simp add: matures_before_def demo_env_def demo_state_def demo_heap_def get_def field_def)
  have r: "role (demo_user (lit ''admin'')) = Str (lit ''admin'')" by (simp add: demo_user_def)
  have w: "wf_state demo_state" by (simp add: wf_state_def demo_state_def demo_heap_def)
  have i: "get (mem demo_state) 0 (lit ''id'') = Str (lit ''900199'')"
    by (simp add: demo_state_def demo_heap_def get_def field_def)
  from expired_loans_are_those_maturing_before_now [OF a w, of 1800000000000]
  obtain xs h' ps where
    "GET_expired_loans demo_env 1800000000000 ?req demo_state
       = (ok (LoansBody (length xs) ps), demo_state\<lparr>mem := h'\<rparr>)"
    "processLoansByRole (mem demo_state) xs (role (demo_user (lit ''admin''))) = (h', ps)"
    "xs = filter (matures_before demo_env (mem demo_state) 1800000000000) (loansData demo_state)"
    "\<forall>k. k \<noteq> lit ''applicant'' \<longrightarrow>
           map (\<lambda>p. get h' p k) ps = map (\<lambda>l. get (mem demo_state) l k) xs"
    by blast
  then have "GET_expired_loans demo_env 1800000000000 ?req demo_state
       = (ok (LoansBody 1 ps), demo_state\<lparr>mem := h'\<rparr>)
     \<and> processLoansByRole (mem demo_state) [0] (Str (lit ''admin'')) = (h', ps)
     \<and> map (\<lambda>p. get h' p (lit ''id'')) ps = [Str (lit ''900199'')]"
    by (simp add: f r i)
  then have "\<exists>h' ps. GET_expired_loans demo_env 1800000000000 ?req demo_state
       = (ok (LoansBody 1 ps), demo_state\<lparr>mem := h'\<rparr>)
     \<and> processLoansByRole (mem demo_state) [0] (Str (lit ''admin'')) = (h', ps)
     \<and> map (\<lambda>p. get h' p (lit ''id'')) ps = [Str (lit ''900199'')]"
    by (intro exI)
  with a show ?thesis by (rule conjI)
qed

text \<open>
  \<^bold>\<open>C8.\<close> As stated (every two email strings that differ only in letter case get the
  same result) the claim fails. \<^verbatim>\<open>toLowerCase\<close> turns a capital sigma that ends a
  word into the final small sigma: the parameter that ends in capital alpha, capital
  sigma is lower-cased to alpha, final sigma, the parameter that ends in small alpha,
  small sigma stays as it is, and a loan whose applicant's email is the second string is
  returned for the second parameter and not for the first.
\<close>

theorem final_sigma_separates_case_variants_counterexample:
  "differ_only_in_case (lit ''a@b.'' @ [913, 931]) (lit ''a@b.'' @ [945, 963])
   \<and> String_toLowerCase demo_env (lit ''a@b.'' @ [913, 931]) = lit ''a@b.'' @ [945, 962]
   \<and> String_toLowerCase demo_env (lit ''a@b.'' @ [945, 963]) = lit ''a@b.'' @ [945, 963]
   \<and> applicant_email (mem sigma_state) 0 = Some (lit ''a@b.'' @ [945, 963])
   \<and> fst (GET_user_loans demo_env
             (demo_request\<lparr>cookies_token := Some (lit ''admin''),
                            params_userEmail := lit ''a@b.'' @ [913, 931]\<rparr>) sigma_state)
       = ok (LoansBody 0 [])
   \<and> fst (GET_user_loans demo_env
             (demo_request\<lparr>cookies_token := Some (lit ''admin''),
                            params_userEmail := lit ''a@b.'' @ [945, 963]\<rparr>) sigma_state)
       = ok (LoansBody 1 [2])"
proof -
  let ?P = "lit ''a@b.'' @ [913, 931]"
  let ?Q = "lit ''a@b.'' @ [945, 963]"
  let ?rp = "demo_request\<lparr>cookies_token := Some (lit ''admin''), params_userEmail := ?P\<rparr>"
  let ?rq = "demo_request\<lparr>cookies_token := Some (lit ''admin''), params_userEmail := ?Q\<rparr>"
  have d: "differ_only_in_case ?P ?Q"
    by (simp add: differ_only_in_case_def same_letter_def simple_lower_def lit_def)
  have lp: "String_toLowerCase demo_env ?P = lit ''a@b.'' @ [945, 962]"
    by (simp add: demo_env_def toLowerCase_fragment_def lit_def simple_lower_def cased_def
          case_ignorable_def)
  have lq: "String_toLowerCase demo_env ?Q = ?Q"
    by (simp add: demo_env_def toLowerCase_fragment_def lit_def simple_lower_def)
  have ne: "lit ''a@b.'' @ [945, 963] \<noteq> lit ''a@b.'' @ [945, 962]" by simp
  have ap: "applicant_email (mem sigma_state) 0 = Some ?Q"
    by (simp add: applicant_email_def sigma_state_def sigma_heap_def get_def field_def)
  have low: "email_toLowerCase demo_env (mem sigma_state) 0 = Inr ?Q"
    using email_toLowerCase_typed [OF ap, of demo_env] lq by simp
  have auth: "authMiddleware demo_env ?rp = Inr (demo_user (lit ''admin''))"
             "authMiddleware demo_env ?rq = Inr (demo_user (lit ''admin''))"
    by (simp_all add: authMiddleware_def request_token_def demo_env_def demo_request_def)
  have len: "length sigma_heap = 2" by (simp add: sigma_heap_def)
  have run: "processLoansByRole (mem sigma_state) [0] (role (demo_user (lit ''admin'')))
               = (sigma_heap @ [sigma_heap ! 0], [2])"
    by (simp add: sigma_state_def demo_user_def processLoan_other len)
  have fp: "get_user_loans demo_env ?rp (demo_user (lit ''admin'')) sigma_state
              = respond_loans [] (demo_user (lit ''admin'')) sigma_state"
    using low lp ne by (simp add: get_user_loans_def sigma_state_def)
  have fq: "get_user_loans demo_env ?rq (demo_user (lit ''admin'')) sigma_state
              = respond_loans [0] (demo_user (lit ''admin'')) sigma_state"
    using low lq by (simp add: get_user_loans_def sigma_state_def)
  have rp: "fst (GET_user_loans demo_env ?rp sigma_state) = ok (LoansBody 0 [])"
    unfolding GET_user_loans_def protected_authenticated [OF auth(1)] fp
    by (simp add: respond_loans_def finish_def)
  have rq: "fst (GET_user_loans demo_env ?rq sigma_state) = ok (LoansBody 1 [2])"
    unfolding GET_user_loans_def protected_authenticated [OF auth(2)] fq
    by (simp add: respond_loans_eq [OF run] finish_def)
  from d lp lq ap rp rq show ?thesis by (intro conjI)
qed

text \<open>
  \<^bold>\<open>C8, amended.\<close> \<^verbatim>\<open>GET /api/user-loans/:userEmail\<close>: two requests whose path
  parameters have the same lower-casing by \<^verbatim>\<open>toLowerCase\<close> get the same answer and
  leave the same state; so do, in particular, two parameters of code units below 256
  (Basic Latin and Latin-1) that differ only in letter case. When every loan has an
  applicant with a string email, the answer is 200 with the shaped copies of exactly the
  loans whose applicant's email, lower-cased, is the lower-cased parameter.
\<close>

theorem user_loans_match_email_by_lower_casing:
  assumes "authMiddleware e req = Inr user"
  shows "(String_toLowerCase e p = String_toLowerCase e q \<longrightarrow>
            GET_user_loans e (req\<lparr>params_userEmail := p\<rparr>) st
              = GET_user_loans e (req\<lparr>params_userEmail := q\<rparr>) st)
       \<and> (lowers_latin1 e \<and> below_256 p \<and> below_256 q \<and> differ_only_in_case p q \<longrightarrow>
            GET_user_loans e (req\<lparr>params_userEmail := p\<rparr>) st
              = GET_user_loans e (req\<lparr>params_userEmail := q\<rparr>) st)
       \<and> (wf_state st \<and> applicants_have_email st \<longrightarrow>
            (\<exists>userLoans h' ps.
               GET_user_loans e req st = (ok (LoansBody (length userLoans) ps), st\<lparr>mem := h'\<rparr>)
             \<and> processLoansByRole (mem st) userLoans (role user) = (h', ps)
             \<and> userLoans = filter (email_matches e (mem st) (params_userEmail req)) (loansData st)
             \<and> (\<forall>k. k \<noteq> lit ''applicant'' \<longrightarrow>
                   map (\<lambda>p. get h' p k) ps = map (\<lambda>l. get (mem st) l k) userLoans)))"
proof -
  have same: "GET_user_loans e (req\<lparr>params_userEmail := p\<rparr>) st
                = GET_user_loans e (req\<lparr>params_userEmail := q\<rparr>) st"
    if "String_toLowerCase e p = String_toLowerCase e q"
  proof -
    from that have "get_user_loans e (req\<lparr>params_userEmail := p\<rparr>) user st
                 = get_user_loans e (req\<lparr>params_userEmail := q\<rparr>) user st"
      by (intro get_user_loans_lower) simp
    then show ?thesis
      unfolding GET_user_loans_def using assms by (simp add: protected_def)
  qed
  have latin: "GET_user_loans e (req\<lparr>params_userEmail := p\<rparr>) st
                = GET_user_loans e (req\<lparr>params_userEmail := q\<rparr>) st"
    if "lowers_latin1 e \<and> below_256 p \<and> below_256 q \<and> differ_only_in_case p q"
  proof -
    from that have "String_toLowerCase e p = map simple_lower p"
      and "String_toLowerCase e q = map simple_lower q"
      by (simp_all add: lowers_latin1_def)
    moreover from that have "map simple_lower p = map simple_lower q"
      by (intro differ_only_in_case_lower) simp
    ultimately have "String_toLowerCase e p = String_toLowerCase e q" by simp
    then show ?thesis by (rule same)
  qed
  have typed: "\<exists>userLoans h' ps.
               GET_user_loans e req st = (ok (LoansBody (length userLoans) ps), st\<lparr>mem := h'\<rparr>)
             \<and> processLoansByRole (mem st) userLoans (role user) = (h', ps)
             \<and> userLoans = filter (email_matches e (mem st) (params_userEmail req)) (loansData st)
             \<and> (\<forall>k. k \<noteq> lit ''applicant'' \<longrightarrow>
                   map (\<lambda>p. get h' p k) ps = map (\<lambda>l. get (mem st) l k) userLoans)"
    if wf: "wf_state st" and em: "applicants_have_email st"
  proof -
    let ?xs = "filter (email_matches e (mem st) (params_userEmail req)) (loansData st)"
    have cb: "\<forall>loan \<in> set (loansData st).
                (case email_toLowerCase e (mem st) loan of
                   Inl err \<Rightarrow> Inl err
                 | Inr lowered \<Rightarrow> Inr (lowered = String_toLowerCase e (params_userEmail req)))
                = Inr (email_matches e (mem st) (params_userEmail req) loan)"
    proof
      fix loan assume "loan \<in> set (loansData st)"
      with em obtain s where s: "applicant_email (mem st) loan = Some s"
        by (auto simp: applicants_have_email_def)
      then show "(case email_toLowerCase e (mem st) loan of
                   Inl err \<Rightarrow> Inl err
                 | Inr lowered \<Rightarrow> Inr (lowered = String_toLowerCase e (params_userEmail req)))
                = Inr (email_matches e (mem st) (params_userEmail req) loan)"
        by (simp add: email_toLowerCase_typed email_matches_def)
    qed
    obtain h' ps where run: "processLoansByRole (mem st) ?xs (role user) = (h', ps)"
      by (cases "processLoansByRole (mem st) ?xs (role user)")
    have len: "length ps = length ?xs" using run by (rule processLoansByRole_length)
    have "get_user_loans e req user st = (Inr (ok (LoansBody (length ps) ps)), st\<lparr>mem := h'\<rparr>)"
      unfolding get_user_loans_def Let_def filter_throwing_total [OF cb]
      using respond_loans_eq [OF run] by simp
    then have "GET_user_loans e req st = (ok (LoansBody (length ?xs) ps), st\<lparr>mem := h'\<rparr>)"
      unfolding GET_user_loans_def protected_authenticated [OF assms]
      by (simp add: finish_def len)
    moreover have "\<forall>k. k \<noteq> lit ''applicant'' \<longrightarrow>
                 map (\<lambda>p. get h' p k) ps = map (\<lambda>l. get (mem st) l k) ?xs"
      using shaped_fields [OF wf _ run] by simp
    ultimately show ?thesis using run by auto
  qed
  from same latin typed show ?thesis by blast
qed

theorem user_loans_match_email_by_lower_casing_witness:
  "authMiddleware demo_env
     (demo_request\<lparr>cookies_token := Some (lit ''admin''), params_userEmail := lit ''ANN@example.com''\<rparr>)
     = Inr (demo_user (lit ''admin''))
   \<and> differ_only_in_case (lit ''ANN@example.com'') (lit ''ann@Example.COM'')
   \<and> GET_user_loans demo_env
        (demo_request\<lparr>cookies_token := Some (lit ''admin''), params_userEmail := lit ''ANN@example.com''\<rparr>)
        demo_state
       = GET_user_loans demo_env
        (demo_request\<lparr>cookies_token := Some (lit ''admin''), params_userEmail := lit ''ann@Example.COM''\<rparr>)
        demo_state
   \<and> (\<exists>h' ps. GET_user_loans demo_env
        (demo_request\<lparr>cookies_token := Some (lit ''admin''), params_userEmail := lit ''ANN@example.com''\<rparr>)
        demo_state
          = (ok (LoansBody 1 ps), demo_state\<lparr>mem := h'\<rparr>)
        \<and> map (\<lambda>p. get h' p (lit ''id'')) ps = [Str (lit ''900199'')])"
proof -
  let ?req = "demo_request\<lparr>cookies_token := Some (lit ''admin''), params_userEmail := lit ''ANN@example.com''\<rparr>"
  have a: "authMiddleware demo_env ?req = Inr (demo_user (lit ''admin''))"
    by (simp add: authMiddleware_def request_token_def demo_env_def demo_request_def)
  have d: "differ_only_in_case (lit ''ANN@example.com'') (lit ''ann@Example.COM'')"
    by (simp add: differ_only_in_case_def same_letter_def simple_lower_def lit_def)
  have low: "String_toLowerCase demo_env (lit s) = map simple_lower (lit s)" for s
    using lowers_latin1_demo_env below_256_lit by (simp add: lowers_latin1_def)
  have l1: "map simple_lower (lit ''ANN@example.com'') = lit ''ann@example.com''"
    and l2: "map simple_lower (lit ''Ann@Example.com'') = lit ''ann@example.com''"
    and l3: "map simple_lower (lit ''bo@example.com'') = lit ''bo@example.com''"
    by (simp_all add: simple_lower_def lit_def)
  have w: "wf_state demo_state" by (simp add: wf_state_def demo_state_def demo_heap_def)
  have t: "applicants_have_email demo_state"
    by (simp add: applicants_have_email_def applicant_email_def demo_state_def demo_heap_def
          get_def field_def)
  have f: "filter (email_matches demo_env (mem demo_state) (lit ''ANN@example.com''))
             (loansData demo_state) = [0]"
    by (simp add: email_matches_def applicant_email_def demo_state_def demo_heap_def
          get_def field_def low l1 l2 l3)
  have i: "get (mem demo_state) 0 (lit ''id'') = Str (lit ''900199'')"
    by (simp add: demo_state_def demo_heap_def get_def field_def)
  note inst = user_loans_match_email_by_lower_casing
                [OF a, of "lit ''ANN@example.com''" "lit ''ann@Example.COM''" demo_state]
  from inst d lowers_latin1_demo_env below_256_lit
  have same: "GET_user_loans demo_env ?req demo_state
       = GET_user_loans demo_env
           (demo_request\<lparr>cookies_token := Some (lit ''admin''), params_userEmail := lit ''ann@Example.COM''\<rparr>)
           demo_state"
    by simp
  from inst w t obtain xs h' ps where
    "GET_user_loans demo_env ?req demo_state = (ok (LoansBody (length xs) ps), demo_state\<lparr>mem := h'\<rparr>)"
    "xs = filter (email_matches demo_env (mem demo_state) (params_userEmail ?req)) (loansData demo_state)"
    "\<forall>k. k \<noteq> lit ''applicant'' \<longrightarrow>
           map (\<lambda>p. get h' p k) ps = map (\<lambda>l. get (mem demo_state) l k) xs"
    by blast
  then have "GET_user_loans demo_env ?req demo_state = (ok (LoansBody 1 ps), demo_state\<lparr>mem := h'\<rparr>)
     \<and> map (\<lambda>p. get h' p (lit ''id'')) ps = [Str (lit ''900199'')]"
    by (simp add: f i)
  then have "\<exists>h' ps. GET_user_loans demo_env ?req demo_state
                = (ok (LoansBody 1 ps), demo_state\<lparr>mem := h'\<rparr>)
              \<and> map (\<lambda>p. get h' p (lit ''id'')) ps = [Str (lit ''900199'')]"
    by (intro exI)
  with a d same show ?thesis by (intro conjI)
qed

text \<open>
  \<^bold>\<open>C9.\<close> As stated (the header is the fallback only when the cookie is absent) the
  claim fails: a request whose \<^verbatim>\<open>token\<close> cookie is present and empty is
  authenticated by the token of its \<^verbatim>\<open>Authorization\<close> header.
\<close>

theorem empty_cookie_falls_back_to_header_counterexample:
  "cookies_token (demo_request\<lparr>cookies_token := Some [], headers_authorization := Some (lit ''Bearer admin'')\<rparr>)
     \<noteq> None
   \<and> request_token (demo_request\<lparr>cookies_token := Some [], headers_authorization := Some (lit ''Bearer admin'')\<rparr>)
     = Some (lit ''admin'')
   \<and> authMiddleware demo_env
        (demo_request\<lparr>cookies_token := Some [], headers_authorization := Some (lit ''Bearer admin'')\<rparr>)
     = Inr (demo_user (lit ''admin''))"
proof -
  let ?req = "demo_request\<lparr>cookies_token := Some [], headers_authorization := Some (lit ''Bearer admin'')\<rparr>"
  have t: "request_token ?req = Some (lit ''admin'')"
    by (simp add: request_token_def header_token_def lit_def)
  then have "authMiddleware demo_env ?req = Inr (demo_user (lit ''admin''))"
    by (simp add: authMiddleware_def demo_env_def)
  with t show ?thesis by simp
qed

text \<open>
  \<^bold>\<open>C9, amended.\<close> The gate verifies the \<^verbatim>\<open>token\<close> cookie when that cookie is
  present and not empty, whatever the \<^verbatim>\<open>Authorization\<close> header says: its outcome is
  that of \<^verbatim>\<open>jwt.verify\<close> on the cookie. When the cookie is absent or empty and the
  header is \<^verbatim>\<open>Bearer t\<close>, its outcome is that of \<^verbatim>\<open>jwt.verify\<close> on \<^verbatim>\<open>t\<close>. When
  neither the cookie nor the header gives a non-empty token, in particular when both are
  absent, the gate fails with the no-token error and every protected route answers 401
  with \<^verbatim>\<open>Unauthorized - No token provided\<close> and leaves the state as it was, whatever
  \<^verbatim>\<open>jwt.verify\<close> would have returned.
\<close>

theorem token_from_cookie_then_header:
  "(cookies_token req = Some c \<and> c \<noteq> [] \<longrightarrow> authMiddleware e req = verified e c)
   \<and> ((cookies_token req = None \<or> cookies_token req = Some [])
        \<and> headers_authorization req = Some (lit ''Bearer '' @ t)
        \<and> t \<noteq> [] \<and> of_char CHR '' '' \<notin> set t \<longrightarrow>
        authMiddleware e req = verified e t)
   \<and> ((cookies_token req = None \<or> cookies_token req = Some [])
        \<and> (headers_authorization req = None \<or> \<not> truthy_str (header_token req)) \<longrightarrow>
        authMiddleware e req =
          Inl ((new_Error (lit ''Unauthorized - No token provided''))\<lparr>statusCode := Some 401\<rparr>)
        \<and> (\<forall>handler st. protected e req handler st =
              (error_response 401 (lit ''Unauthorized - No token provided''), st)))"
proof -
  have cookie: "authMiddleware e req = verified e c"
    if "cookies_token req = Some c" and "c \<noteq> []"
  proof -
    from that have "request_token req = Some c" by (simp add: request_token_def)
    from this that(2) show ?thesis by (rule authMiddleware_verified)
  qed
  have header: "authMiddleware e req = verified e t"
    if "cookies_token req = None \<or> cookies_token req = Some []"
      and "headers_authorization req = Some (lit ''Bearer '' @ t)"
      and "t \<noteq> []" and "of_char CHR '' '' \<notin> set t"
  proof -
    from header_token_Bearer [OF that(4), of req] that(2)
    have "header_token req = Some t" by (simp add: header_token_def)
    with that(1) have "request_token req = Some t" by (auto simp: request_token_def)
    from this that(3) show ?thesis by (rule authMiddleware_verified)
  qed
  have none: "authMiddleware e req =
          Inl ((new_Error (lit ''Unauthorized - No token provided''))\<lparr>statusCode := Some 401\<rparr>)
        \<and> (\<forall>handler st. protected e req handler st =
              (error_response 401 (lit ''Unauthorized - No token provided''), st))"
    if "cookies_token req = None \<or> cookies_token req = Some []"
      and "headers_authorization req = None \<or> \<not> truthy_str (header_token req)"
  proof -
    from that(2) have "\<not> truthy_str (header_token req)" by (auto simp: header_token_def)
    with that(1) have "\<not> truthy_str (request_token req)" by (auto simp: request_token_def)
    then have a: "authMiddleware e req =
          Inl ((new_Error (lit ''Unauthorized - No token provided''))\<lparr>statusCode := Some 401\<rparr>)"
      by (rule no_token_unauthorized)
    then show ?thesis by (simp add: protected_def errorHandler_status)
  qed
  from cookie header none show ?thesis by blast
qed

theorem token_from_cookie_then_header_witness:
  "authMiddleware demo_env
     (demo_request\<lparr>cookies_token := Some (lit ''staff''),
                    headers_authorization := Some (lit ''Bearer admin'')\<rparr>)
     = Inr (demo_user (lit ''staff''))
   \<and> authMiddleware demo_env (demo_request\<lparr>headers_authorization := Some (lit ''Bearer admin'')\<rparr>)
     = Inr (demo_user (lit ''admin''))
   \<and> GET_loans demo_env demo_request demo_state
     = (error_response 401 (lit ''Unauthorized - No token provided''), demo_state)"
proof -
  let ?r1 = "demo_request\<lparr>cookies_token := Some (lit ''staff''),
                            headers_authorization := Some (lit ''Bearer admin'')\<rparr>"
  let ?r2 = "demo_request\<lparr>headers_authorization := Some (lit ''Bearer admin'')\<rparr>"
  have vs: "verified demo_env (lit ''staff'') = Inr (demo_user (lit ''staff''))"
    and va: "verified demo_env (lit ''admin'') = Inr (demo_user (lit ''admin''))"
    by (simp_all add: verified_def demo_env_def)
  have c: "cookies_token ?r1 = Some (lit ''staff'') \<and> lit ''staff'' \<noteq> []" by simp
  have n: "(cookies_token ?r2 = None \<or> cookies_token ?r2 = Some [])
        \<and> headers_authorization ?r2 = Some (lit ''Bearer '' @ lit ''admin'')
        \<and> lit ''admin'' \<noteq> [] \<and> of_char CHR '' '' \<notin> set (lit ''admin'')"
    by (simp add: demo_request_def lit_append [symmetric]) (simp add: lit_def)
  have b: "(cookies_token demo_request = None \<or> cookies_token demo_request = Some [])
        \<and> (headers_authorization demo_request = None \<or> \<not> truthy_str (header_token demo_request))"
    by (simp add: demo_request_def)
  from token_from_cookie_then_header [where req = ?r1 and c = "lit ''staff''" and e = demo_env] c vs
  have 1: "authMiddleware demo_env ?r1 = Inr (demo_user (lit ''staff''))" by simp
  from token_from_cookie_then_header [where req = ?r2 and t = "lit ''admin''" and e = demo_env] n va
  have 2: "authMiddleware demo_env ?r2 = Inr (demo_user (lit ''admin''))" by simp
  from token_from_cookie_then_header [where req = demo_request and e = demo_env] b
  have 3: "GET_loans demo_env demo_request demo_state
     = (error_response 401 (lit ''Unauthorized - No token provided''), demo_state)"
    unfolding GET_loans_def by blast
  from 1 2 3 show ?thesis by (intro conjI)
qed

text \<open>
  \<^bold>\<open>C10.\<close> An authenticated \<^verbatim>\<open>GET /api/loans\<close> whose \<^verbatim>\<open>status\<close> query parameter
  is the empty string is answered as the request without the parameter is: with the
  shaped copies of the whole loan data set, not with the loans whose status is the empty
  string.
\<close>

theorem empty_status_is_no_filter:
  assumes "authMiddleware e req = Inr user" and "query_status req = Some []"
    and "wf_state st"
  shows "GET_loans e req st = GET_loans e (req\<lparr>query_status := None\<rparr>) st
       \<and> (\<exists>h' ps. GET_loans e req st = (ok (LoansBody (length (loansData st)) ps), st\<lparr>mem := h'\<rparr>)
                 \<and> processLoansByRole (mem st) (loansData st) (role user) = (h', ps)
                 \<and> (\<forall>k. k \<noteq> lit ''applicant'' \<longrightarrow>
                       map (\<lambda>p. get h' p k) ps = map (\<lambda>l. get (mem st) l k) (loansData st)))"
proof -
  obtain h' ps where run: "processLoansByRole (mem st) (loansData st) (role user) = (h', ps)"
    by (cases "processLoansByRole (mem st) (loansData st) (role user)")
  have len: "length ps = length (loansData st)"
    using run by (rule processLoansByRole_length)
  have all: "get_loans req user st = respond_loans (loansData st) user st"
    using assms(2) by (simp add: get_loans_def)
  have none: "get_loans (req\<lparr>query_status := None\<rparr>) user st = respond_loans (loansData st) user st"
    by (simp add: get_loans_def)
  have same: "GET_loans e req st = GET_loans e (req\<lparr>query_status := None\<rparr>) st"
    unfolding GET_loans_def using assms(1) by (simp add: protected_def all none)
  have "GET_loans e req st = (ok (LoansBody (length (loansData st)) ps), st\<lparr>mem := h'\<rparr>)"
    unfolding GET_loans_def protected_authenticated [OF assms(1)] all
    by (simp add: respond_loans_eq [OF run] finish_def len)
  moreover have "\<forall>k. k \<noteq> lit ''applicant'' \<longrightarrow>
                   map (\<lambda>p. get h' p k) ps = map (\<lambda>l. get (mem st) l k) (loansData st)"
    using shaped_fields [OF assms(3) _ run] by simp
  ultimately show ?thesis using same run by auto
qed

theorem empty_status_is_no_filter_witness:
  "authMiddleware demo_env (demo_request\<lparr>cookies_token := Some (lit ''staff''), query_status := Some []\<rparr>)
     = Inr (demo_user (lit ''staff''))
   \<and> filter (\<lambda>loan. get (mem demo_state) loan (lit ''status'') = Str []) (loansData demo_state) = []
   \<and> (\<exists>h' ps. GET_loans demo_env
                  (demo_request\<lparr>cookies_token := Some (lit ''staff''), query_status := Some []\<rparr>) demo_state
                = (ok (LoansBody 2 ps), demo_state\<lparr>mem := h'\<rparr>)
              \<and> map (\<lambda>p. get h' p (lit ''id'')) ps = [Str (lit ''900199''), Str (lit ''900200'')])"
proof -
  let ?req = "demo_request\<lparr>cookies_token := Some (lit ''staff''), query_status := Some []\<rparr>"
  have a: "authMiddleware demo_env ?req = Inr (demo_user (lit ''staff''))"
    by (simp add: authMiddleware_def request_token_def demo_env_def demo_request_def)
  have q: "query_status ?req = Some []" by simp
  have w: "wf_state demo_state" by (simp add: wf_state_def demo_state_def demo_heap_def)
  have f: "filter (\<lambda>loan. get (mem demo_state) loan (lit ''status'') = Str []) (loansData demo_state) = []"
    by (simp add: demo_state_def demo_heap_def get_def field_def)
  have i: "map (\<lambda>l. get (mem demo_state) l (lit ''id'')) (loansData demo_state)
             = [Str (lit ''900199''), Str (lit ''900200'')]"
    by (simp add: demo_state_def demo_heap_def get_def field_def)
  have l: "length (loansData demo_state) = 2" by (simp add: demo_state_def)
  from empty_status_is_no_filter [OF a q w]
  obtain h' ps where
    "GET_loans demo_env ?req demo_state
       = (ok (LoansBody (length (loansData demo_state)) ps), demo_state\<lparr>mem := h'\<rparr>)"
    "\<forall>k. k \<noteq> lit ''applicant'' \<longrightarrow>
        map (\<lambda>p. get h' p k) ps = map (\<lambda>l. get (mem demo_state) l k) (loansData demo_state)"
    by blast
  then have "GET_loans demo_env ?req demo_state = (ok (LoansBody 2 ps), demo_state\<lparr>mem := h'\<rparr>)
     \<and> map (\<lambda>p. get h' p (lit ''id'')) ps = [Str (lit ''900199''), Str (lit ''900200'')]"
    by (simp add: l i)
  then have "\<exists>h' ps. GET_loans demo_env ?req demo_state
                = (ok (LoansBody 2 ps), demo_state\<lparr>mem := h'\<rparr>)
              \<and> map (\<lambda>p. get h' p (lit ''id'')) ps = [Str (lit ''900199''), Str (lit ''900200'')]"
    by (intro exI)
  with a f show ?thesis by (intro conjI)
qed

end
